theory Spec2Isabelle
  imports Main "HOL-Library.Word" "HOL-Library.Sublist"
begin

unbundle bit_operations_syntax

section \<open>Bytes, UTF-8 and hexadecimal text\<close>

text \<open>
  A JavaScript (or Python) string is modelled as a \<^typ>\<open>string\<close>: a list of characters
  whose code points lie in U+0000..U+00FF.  The clients hand strings to the HMAC
  primitives, which encode them as UTF-8 (\<open>CryptoJS.enc.Utf8.parse\<close> for CryptoJS, the
  default encoding of \<open>crypto.createHmac\<close> and \<open>Hmac.update\<close> in Node.js,
  \<open>str.encode('utf-8')\<close> in Python): one byte below U+0080, two bytes from there on.
\<close>

type_synonym byte = "8 word"
type_synonym u32 = "32 word"

definition utf8_char :: "char \<Rightarrow> byte list" where
  "utf8_char c =
     (let n = (of_char c :: nat)
      in if n < 128 then [of_nat n]
         else [of_nat (192 + n div 64), of_nat (128 + n mod 64)])"

definition utf8 :: "string \<Rightarrow> byte list" where
  "utf8 s = concat (map utf8_char s)"

text \<open>Lower-case hexadecimal text, two digits per byte, high nibble first
  (\<open>toString(CryptoJS.enc.Hex)\<close>, \<open>digest('hex')\<close>, \<open>hexdigest()\<close>).\<close>

definition hex_digits :: string where
  "hex_digits = ''0123456789abcdef''"

definition hex_digit :: "nat \<Rightarrow> char" where
  "hex_digit n = hex_digits ! (n mod 16)"

definition hex_byte :: "byte \<Rightarrow> string" where
  "hex_byte b = [hex_digit (unat b div 16), hex_digit (unat b mod 16)]"

definition hex_encode :: "byte list \<Rightarrow> string" where
  "hex_encode bs = concat (map hex_byte bs)"

section \<open>SHA-256 and HMAC\<close>

text \<open>
  The clients call the HMAC-SHA256 of their platform (\<open>CryptoJS.HmacSHA256\<close>,
  \<open>crypto.createHmac('sha256', key)\<close>, \<open>hmac.new(key, msg, hashlib.sha256)\<close>).  Those
  libraries are not part of the repository; the function they compute is the one of
  FIPS 180-4 and RFC 2104, written out here on 32-bit words.
\<close>

definition Ch :: "u32 \<Rightarrow> u32 \<Rightarrow> u32 \<Rightarrow> u32" where
  "Ch x y z = (x AND y) XOR (NOT x AND z)"

definition Maj :: "u32 \<Rightarrow> u32 \<Rightarrow> u32 \<Rightarrow> u32" where
  "Maj x y z = (x AND y) XOR (x AND z) XOR (y AND z)"

text \<open>Rotation to the right by \<open>n\<close> places, \<open>0 < n < 32\<close>.\<close>

definition rotr :: "nat \<Rightarrow> u32 \<Rightarrow> u32" where
  "rotr n x = drop_bit n x OR push_bit (32 - n) x"

definition Sigma0 :: "u32 \<Rightarrow> u32" where
  "Sigma0 x = rotr 2 x XOR rotr 13 x XOR rotr 22 x"

definition Sigma1 :: "u32 \<Rightarrow> u32" where
  "Sigma1 x = rotr 6 x XOR rotr 11 x XOR rotr 25 x"

definition sigma0 :: "u32 \<Rightarrow> u32" where
  "sigma0 x = rotr 7 x XOR rotr 18 x XOR drop_bit 3 x"

definition sigma1 :: "u32 \<Rightarrow> u32" where
  "sigma1 x = rotr 17 x XOR rotr 19 x XOR drop_bit 10 x"

definition sha256_K :: "u32 list" where
  "sha256_K =
    [0x428A2F98, 0x71374491, 0xB5C0FBCF, 0xE9B5DBA5, 0x3956C25B, 0x59F111F1, 0x923F82A4, 0xAB1C5ED5,
     0xD807AA98, 0x12835B01, 0x243185BE, 0x550C7DC3, 0x72BE5D74, 0x80DEB1FE, 0x9BDC06A7, 0xC19BF174,
     0xE49B69C1, 0xEFBE4786, 0x0FC19DC6, 0x240CA1CC, 0x2DE92C6F, 0x4A7484AA, 0x5CB0A9DC, 0x76F988DA,
     0x983E5152, 0xA831C66D, 0xB00327C8, 0xBF597FC7, 0xC6E00BF3, 0xD5A79147, 0x06CA6351, 0x14292967,
     0x27B70A85, 0x2E1B2138, 0x4D2C6DFC, 0x53380D13, 0x650A7354, 0x766A0ABB, 0x81C2C92E, 0x92722C85,
     0xA2BFE8A1, 0xA81A664B, 0xC24B8B70, 0xC76C51A3, 0xD192E819, 0xD6990624, 0xF40E3585, 0x106AA070,
     0x19A4C116, 0x1E376C08, 0x2748774C, 0x34B0BCB5, 0x391C0CB3, 0x4ED8AA4A, 0x5B9CCA4F, 0x682E6FF3,
     0x748F82EE, 0x78A5636F, 0x84C87814, 0x8CC70208, 0x90BEFFFA, 0xA4506CEB, 0xBEF9A3F7, 0xC67178F2]"

text \<open>The chaining value: the eight working words \<open>a\<close> .. \<open>h\<close>.\<close>

type_synonym sha_state = "u32 \<times> u32 \<times> u32 \<times> u32 \<times> u32 \<times> u32 \<times> u32 \<times> u32"

definition sha256_H0 :: sha_state where
  "sha256_H0 =
    (0x6A09E667, 0xBB67AE85, 0x3C6EF372, 0xA54FF53A, 0x510E527F, 0x9B05688C, 0x1F83D9AB, 0x5BE0CD19)"

text \<open>Padding: the byte 0x80, zero bytes up to 56 modulo 64, the length in bits on
  eight bytes, most significant first.\<close>

definition be_bytes :: "nat \<Rightarrow> nat \<Rightarrow> byte list" where
  "be_bytes k n = map (\<lambda>i. of_nat (n div 256 ^ i)) (rev [0..<k])"

definition sha256_pad :: "byte list \<Rightarrow> byte list" where
  "sha256_pad m =
     m @ [0x80] @ replicate ((119 - length m mod 64) mod 64) 0 @ be_bytes 8 (8 * length m)"

definition be_word :: "byte list \<Rightarrow> u32" where
  "be_word bs = foldl (\<lambda>w b. push_bit 8 w OR ucast b) 0 bs"

fun block_words :: "nat \<Rightarrow> byte list \<Rightarrow> u32 list" where
  "block_words 0 bs = []"
| "block_words (Suc n) bs = be_word (take 4 bs) # block_words n (drop 4 bs)"

text \<open>The message schedule: sixteen words of the block, extended to sixty-four.\<close>

fun schedule :: "nat \<Rightarrow> u32 list \<Rightarrow> u32 list" where
  "schedule 0 w = w"
| "schedule (Suc n) w =
     (let t = length w
      in schedule n (w @ [sigma1 (w ! (t - 2)) + w ! (t - 7) + sigma0 (w ! (t - 15)) + w ! (t - 16)]))"

fun sha256_round :: "sha_state \<Rightarrow> u32 \<times> u32 \<Rightarrow> sha_state" where
  "sha256_round (a, b, c, d, e, f, g, h) (k, w) =
     (let t1 = h + Sigma1 e + Ch e f g + k + w;
          t2 = Sigma0 a + Maj a b c
      in (t1 + t2, a, b, c, d + t1, e, f, g))"

fun sha_add :: "sha_state \<Rightarrow> sha_state \<Rightarrow> sha_state" where
  "sha_add (a, b, c, d, e, f, g, h) (a', b', c', d', e', f', g', h') =
     (a + a', b + b', c + c', d + d', e + e', f + f', g + g', h + h')"

definition sha256_compress :: "sha_state \<Rightarrow> byte list \<Rightarrow> sha_state" where
  "sha256_compress st block =
     sha_add st (foldl sha256_round st (zip sha256_K (schedule 48 (block_words 16 block))))"

fun sha256_blocks :: "nat \<Rightarrow> sha_state \<Rightarrow> byte list \<Rightarrow> sha_state" where
  "sha256_blocks 0 st bs = st"
| "sha256_blocks (Suc n) st bs = sha256_blocks n (sha256_compress st (take 64 bs)) (drop 64 bs)"

definition word_bytes :: "u32 \<Rightarrow> byte list" where
  "word_bytes w = [ucast (drop_bit 24 w), ucast (drop_bit 16 w), ucast (drop_bit 8 w), ucast w]"

fun sha_bytes :: "sha_state \<Rightarrow> byte list" where
  "sha_bytes (a, b, c, d, e, f, g, h) =
     word_bytes a @ word_bytes b @ word_bytes c @ word_bytes d @
     word_bytes e @ word_bytes f @ word_bytes g @ word_bytes h"

definition sha256 :: "byte list \<Rightarrow> byte list" where
  "sha256 m = (let p = sha256_pad m in sha_bytes (sha256_blocks (length p div 64) sha256_H0 p))"

text \<open>HMAC (RFC 2104) with a block of 64 bytes: a key longer than the block is
  hashed first, then the key is filled with zero bytes.\<close>

definition hmac_key :: "byte list \<Rightarrow> byte list" where
  "hmac_key k =
     (let k' = (if length k > 64 then sha256 k else k) in k' @ replicate (64 - length k') 0)"

definition hmac_sha256 :: "byte list \<Rightarrow> byte list \<Rightarrow> byte list" where
  "hmac_sha256 k m =
     (let k0 = hmac_key k
      in sha256 (map (\<lambda>b. b XOR 0x5c) k0 @ sha256 (map (\<lambda>b. b XOR 0x36) k0 @ m)))"

section \<open>JavaScript values\<close>

text \<open>
  Parsed JSON and the object literals the clients build.  An object is an association
  list in insertion order, read with \<^const>\<open>map_of\<close>.  Numbers are the integers a double holds exactly
  (below \<open>2^53\<close> in magnitude), which \<open>JSON.stringify\<close> and \<open>ToString\<close> print in
  decimal; fractions and larger numbers are outside the model.  The value
  \<open>undefined\<close> of a missing property is \<open>None\<close> of type \<open>json option\<close>.
\<close>

datatype json =
    JNull
  | JBool bool
  | JNum int
  | JStr string
  | JArr "json list"
  | JObj "(string \<times> json) list"

datatype js_error =
    Error string
  | TypeError
  | SyntaxError
  | URIError

definition digit_char :: "nat \<Rightarrow> char" where
  "digit_char n = ''0123456789'' ! (n mod 10)"

fun decimal :: "nat \<Rightarrow> string" where
  "decimal n = (if n < 10 then [digit_char n] else decimal (n div 10) @ [digit_char (n mod 10)])"

declare decimal.simps [simp del]

definition show_int :: "int \<Rightarrow> string" where
  "show_int i = (if i < 0 then ''-'' @ decimal (nat (- i)) else decimal (nat i))"

fun join :: "string \<Rightarrow> string list \<Rightarrow> string" where
  "join sep [] = []"
| "join sep [x] = x"
| "join sep (x # y # ys) = x @ sep @ join sep (y # ys)"

text \<open>\<open>JSON.stringify\<close>: the quoting of a string (\<open>QuoteJSONString\<close>) and the
  compact serialisation, no white space between the tokens.\<close>

definition json_escape_char :: "char \<Rightarrow> string" where
  "json_escape_char c =
     (if c = CHR 0x22 then [CHR 0x5C, CHR 0x22]
      else if c = CHR 0x5C then [CHR 0x5C, CHR 0x5C]
      else if c = CHR 0x08 then [CHR 0x5C, CHR ''b'']
      else if c = CHR 0x0C then [CHR 0x5C, CHR ''f'']
      else if c = CHR 0x0A then [CHR 0x5C, CHR ''n'']
      else if c = CHR 0x0D then [CHR 0x5C, CHR ''r'']
      else if c = CHR 0x09 then [CHR 0x5C, CHR ''t'']
      else if (of_char c :: nat) < 32
        then [CHR 0x5C, CHR ''u'', CHR ''0'', CHR ''0'',
              hex_digit (of_char c div 16), hex_digit (of_char c mod 16)]
      else [c])"

definition json_quote :: "string \<Rightarrow> string" where
  "json_quote s = [CHR 0x22] @ concat (map json_escape_char s) @ [CHR 0x22]"

fun JSON_stringify :: "json \<Rightarrow> string" where
  "JSON_stringify JNull = ''null''"
| "JSON_stringify (JBool b) = (if b then ''true'' else ''false'')"
| "JSON_stringify (JNum n) = show_int n"
| "JSON_stringify (JStr s) = json_quote s"
| "JSON_stringify (JArr xs) = ''['' @ join '','' (map JSON_stringify xs) @ '']''"
| "JSON_stringify (JObj kvs) =
     ''{'' @ join '','' (map (\<lambda>kv. json_quote (fst kv) @ '':'' @ JSON_stringify (snd kv)) kvs) @ ''}''"

text \<open>Truthiness (\<open>ToBoolean\<close>) and the conversion to a string of a template literal
  or of the \<open>Error\<close> constructor (\<open>ToString\<close>).\<close>

fun js_truthy :: "json \<Rightarrow> bool" where
  "js_truthy JNull = False"
| "js_truthy (JBool b) = b"
| "js_truthy (JNum n) = (n \<noteq> 0)"
| "js_truthy (JStr s) = (s \<noteq> [])"
| "js_truthy (JArr xs) = True"
| "js_truthy (JObj kvs) = True"

fun truthy :: "json option \<Rightarrow> bool" where
  "truthy None = False"
| "truthy (Some v) = js_truthy v"

fun js_toString :: "json \<Rightarrow> string" where
  "js_toString JNull = ''null''"
| "js_toString (JBool b) = (if b then ''true'' else ''false'')"
| "js_toString (JNum n) = show_int n"
| "js_toString (JStr s) = s"
| "js_toString (JArr xs) = join '','' (map (\<lambda>x. if x = JNull then [] else js_toString x) xs)"
| "js_toString (JObj kvs) = ''[object Object]''"

text \<open>Reading a property \<open>v.k\<close> (for the keys the clients read: none is an index
  or \<open>length\<close>): a \<open>TypeError\<close> on \<open>null\<close> and \<open>undefined\<close>, \<open>undefined\<close> on a value
  that is not an object.  \<open>v[0]\<close> also reads the first element of an array and the first
  character of a string.\<close>

fun js_get :: "json option \<Rightarrow> string \<Rightarrow> js_error + json option" where
  "js_get None k = Inl TypeError"
| "js_get (Some JNull) k = Inl TypeError"
| "js_get (Some (JObj kvs)) k = Inr (map_of kvs k)"
| "js_get (Some v) k = Inr None"

fun js_index0 :: "json option \<Rightarrow> js_error + json option" where
  "js_index0 None = Inl TypeError"
| "js_index0 (Some JNull) = Inl TypeError"
| "js_index0 (Some (JArr xs)) = Inr (case xs of [] \<Rightarrow> None | x # _ \<Rightarrow> Some x)"
| "js_index0 (Some (JStr s)) = Inr (case s of [] \<Rightarrow> None | c # _ \<Rightarrow> Some (JStr [c]))"
| "js_index0 (Some (JObj kvs)) = Inr (map_of kvs ''0'')"
| "js_index0 (Some v) = Inr None"

section \<open>The request signer\<close>

text \<open>
  A client object: \<open>FedshiAPIClient\<close> of the browser tool, \<open>FedshiGraphQLClient\<close> of the
  GraphQL guide and \<open>ThirdPartyAPIClient\<close> of the Node.js SDK (whose secret field is
  named \<open>secret\<close>) hold the same three fields.
\<close>

record client =
  apiKey :: string
  secretKey :: string
  baseUrl :: string

text \<open>The template literal
  \<^verbatim>\<open>`${method}\n${path}\n${body}\n${timestamp}\n${this.apiKey}`\<close>.\<close>

definition stringToSign :: "string \<Rightarrow> string \<Rightarrow> string \<Rightarrow> string \<Rightarrow> string \<Rightarrow> string" where
  "stringToSign method path body timestamp api_key =
     method @ [CHR 0x0A] @ path @ [CHR 0x0A] @ body @ [CHR 0x0A] @ timestamp @ [CHR 0x0A] @ api_key"

text \<open>\<open>CryptoJS.HmacSHA256(message, key).toString(CryptoJS.enc.Hex)\<close>: message first,
  key second, both strings parsed as UTF-8.\<close>

definition CryptoJS_HmacSHA256 :: "string \<Rightarrow> string \<Rightarrow> byte list" where
  "CryptoJS_HmacSHA256 message key = hmac_sha256 (utf8 key) (utf8 message)"

definition FedshiAPIClient_generateSignature ::
  "client \<Rightarrow> string \<Rightarrow> string \<Rightarrow> string \<Rightarrow> string \<Rightarrow> string" where
  "FedshiAPIClient_generateSignature c method path body timestamp =
     (let s = stringToSign method path body timestamp (apiKey c)
      in hex_encode (CryptoJS_HmacSHA256 s (secretKey c)))"

definition FedshiGraphQLClient_generateSignature ::
  "client \<Rightarrow> string \<Rightarrow> string \<Rightarrow> string \<Rightarrow> string \<Rightarrow> string" where
  "FedshiGraphQLClient_generateSignature c method path body timestamp =
     (let s = stringToSign method path body timestamp (apiKey c)
      in hex_encode (CryptoJS_HmacSHA256 s (secretKey c)))"

text \<open>Node.js: \<open>crypto.createHmac('sha256', key)\<close> makes an object that collects the
  data of every \<open>update\<close>; \<open>digest('hex')\<close> closes it.\<close>

record hmac_object =
  hmac_obj_key :: "byte list"
  hmac_obj_data :: "byte list"

definition createHmac_sha256 :: "string \<Rightarrow> hmac_object" where
  "createHmac_sha256 key = \<lparr>hmac_obj_key = utf8 key, hmac_obj_data = []\<rparr>"

definition hmac_update :: "hmac_object \<Rightarrow> string \<Rightarrow> hmac_object" where
  "hmac_update h s = h\<lparr>hmac_obj_data := hmac_obj_data h @ utf8 s\<rparr>"

definition hmac_digest_hex :: "hmac_object \<Rightarrow> string" where
  "hmac_digest_hex h = hex_encode (hmac_sha256 (hmac_obj_key h) (hmac_obj_data h))"

definition ThirdPartyAPIClient_generateSignature ::
  "client \<Rightarrow> string \<Rightarrow> string \<Rightarrow> string \<Rightarrow> string \<Rightarrow> string" where
  "ThirdPartyAPIClient_generateSignature c method path body timestamp =
     (let s = stringToSign method path body timestamp (apiKey c);
          hmac = createHmac_sha256 (secretKey c);
          hmac = hmac_update hmac s
      in hmac_digest_hex hmac)"

section \<open>Reading hexadecimal text back\<close>

text \<open>The inverse of \<^const>\<open>hex_encode\<close>, used to state what the signature encodes.\<close>

definition hex_value :: "char \<Rightarrow> nat" where
  "hex_value c = (if (of_char c :: nat) \<ge> 97 then of_char c - 87 else of_char c - 48)"

fun hex_decode :: "string \<Rightarrow> byte list" where
  "hex_decode (a # b # s) = of_nat (16 * hex_value a + hex_value b) # hex_decode s"
| "hex_decode s = []"

section \<open>HTTP requests and responses\<close>

text \<open>
  What \<open>fetch\<close> is given and what it answers.  A header object is an association list
  in insertion order.  \<open>response.ok\<close> is true for a status from 200 to 299;
  \<open>response.json()\<close> rejects with a \<open>SyntaxError\<close> when the body is not JSON.  The
  network is a function from the request to a rejection or a response, and the clock
  (\<open>new Date().toISOString()\<close>) is the string \<open>now\<close>: both are inputs of every
  function that sends a request.
\<close>

datatype form_value = FormString string | FormFile "byte list"

datatype request_body = NoBody | TextBody string | FormData "(string \<times> form_value) list"

record http_request =
  req_url :: string
  req_method :: string
  req_headers :: "(string \<times> string) list"
  req_body :: request_body

record http_response =
  status :: nat
  statusText :: string
  response_text :: string
  response_json :: "json option"

type_synonym fetch = "http_request \<Rightarrow> js_error + http_response"

definition response_ok :: "http_response \<Rightarrow> bool" where
  "response_ok r = (200 \<le> status r \<and> status r \<le> 299)"

definition json_of_response :: "http_response \<Rightarrow> js_error + json" where
  "json_of_response r = (case response_json r of None \<Rightarrow> Inl SyntaxError | Some v \<Rightarrow> Inr v)"

section \<open>The browser tool (samples/robotool/app.js)\<close>

text \<open>\<open>FedshiIntegrationApp\<close>: the fields the client code reads and writes.  The token
  is \<open>null\<close> until a login stores one.\<close>

record app =
  fedshiClient :: "client option"
  fedshiJwtToken :: json
  authenticationStatus_fedshi :: bool

text \<open>\<open>FedshiAPIClient.authenticate(username, password)\<close>: the request it sends, then
  the whole call.\<close>

definition authenticate_request :: "client \<Rightarrow> string \<Rightarrow> string \<Rightarrow> string \<Rightarrow> http_request" where
  "authenticate_request c now username password =
     (let timestamp = now;
          method = ''POST'';
          path = ''/api/v1/third-party/admin/login'';
          body = JSON_stringify (JObj [(''email'', JStr username), (''password'', JStr password)]);
          signature = FedshiAPIClient_generateSignature c method path body timestamp
      in \<lparr>req_url = baseUrl c @ path,
          req_method = ''POST'',
          req_headers =
            [(''X-API-Key'', apiKey c),
             (''X-API-Signature'', signature),
             (''X-API-Timestamp'', timestamp),
             (''Content-Type'', ''application/json'')],
          req_body = TextBody body\<rparr>)"

definition authenticate :: "client \<Rightarrow> string \<Rightarrow> fetch \<Rightarrow> string \<Rightarrow> string \<Rightarrow> js_error + json" where
  "authenticate c now fetch username password =
     (case fetch (authenticate_request c now username password) of
        Inl e \<Rightarrow> Inl e
      | Inr response \<Rightarrow>
          if \<not> response_ok response
          then Inl (Error (''Authentication failed: '' @ decimal (status response)))
          else json_of_response response)"

text \<open>\<open>FedshiIntegrationApp.loginFedshi()\<close>, with the two input fields of the page as
  arguments.  It returns early on an empty field; every exception of the \<open>try\<close> block
  (also the \<open>TypeError\<close> of a client that was never configured) ends in the
  \<open>catch\<close> block.  The messages it shows on the page are left out.\<close>

definition loginFedshi :: "app \<Rightarrow> string \<Rightarrow> fetch \<Rightarrow> string \<Rightarrow> string \<Rightarrow> app" where
  "loginFedshi a now fetch username password =
     (if username = [] \<or> password = [] then a
      else
        (case fedshiClient a of
           None \<Rightarrow> a\<lparr>authenticationStatus_fedshi := False\<rparr>
         | Some c \<Rightarrow>
             (case authenticate c now fetch username password of
                Inl e \<Rightarrow> a\<lparr>authenticationStatus_fedshi := False\<rparr>
              | Inr loginResult \<Rightarrow>
                  (if js_truthy loginResult then
                     (case js_get (Some loginResult) ''Token'' of
                        Inl e \<Rightarrow> a\<lparr>authenticationStatus_fedshi := False\<rparr>
                      | Inr token \<Rightarrow>
                          (case token of
                             None \<Rightarrow> a\<lparr>authenticationStatus_fedshi := False\<rparr>
                           | Some t \<Rightarrow>
                               if js_truthy t
                               then a\<lparr>fedshiJwtToken := t, authenticationStatus_fedshi := True\<rparr>
                               else a\<lparr>authenticationStatus_fedshi := False\<rparr>))
                   else a\<lparr>authenticationStatus_fedshi := False\<rparr>))))"

text \<open>The request \<open>loginFedshi\<close> makes the client send, if it sends one.\<close>

definition loginFedshi_request :: "app \<Rightarrow> string \<Rightarrow> string \<Rightarrow> string \<Rightarrow> http_request option" where
  "loginFedshi_request a now username password =
     (if username = [] \<or> password = [] then None
      else (case fedshiClient a of
              None \<Rightarrow> None
            | Some c \<Rightarrow> Some (authenticate_request c now username password)))"

text \<open>\<open>FedshiAPIClient.makeGraphQLRequest(query, variables = {})\<close>; \<open>window.app\<close> is the
  application object when the page has created it.\<close>

definition makeGraphQLRequest_request ::
  "client \<Rightarrow> app option \<Rightarrow> string \<Rightarrow> string \<Rightarrow> json \<Rightarrow> http_request" where
  "makeGraphQLRequest_request c window_app now query variables =
     (let timestamp = now;
          method = ''POST'';
          path = ''/graphql/third-party'';
          body = JSON_stringify (JObj [(''query'', JStr query), (''variables'', variables)]);
          signature = FedshiAPIClient_generateSignature c method path body timestamp;
          headers =
            [(''X-API-Key'', apiKey c),
             (''X-API-Signature'', signature),
             (''X-API-Timestamp'', timestamp),
             (''Content-Type'', ''application/json'')];
          headers =
            (case window_app of
               None \<Rightarrow> headers
             | Some a \<Rightarrow>
                 if js_truthy (fedshiJwtToken a)
                 then headers @ [(''Authorization'', ''Bearer '' @ js_toString (fedshiJwtToken a))]
                 else headers)
      in \<lparr>req_url = baseUrl c @ path, req_method = ''POST'', req_headers = headers,
          req_body = TextBody body\<rparr>)"

definition makeGraphQLRequest ::
  "client \<Rightarrow> app option \<Rightarrow> string \<Rightarrow> fetch \<Rightarrow> string \<Rightarrow> json \<Rightarrow> js_error + json option" where
  "makeGraphQLRequest c window_app now fetch query variables =
     (case fetch (makeGraphQLRequest_request c window_app now query variables) of
        Inl e \<Rightarrow> Inl e
      | Inr response \<Rightarrow>
          if \<not> response_ok response
          then Inl (Error (''GraphQL request failed: '' @ decimal (status response)))
          else
            (case json_of_response response of
               Inl e \<Rightarrow> Inl e
             | Inr result \<Rightarrow>
                 (case js_get (Some result) ''errors'' of
                    Inl e \<Rightarrow> Inl e
                  | Inr errors \<Rightarrow>
                      (case errors of
                         None \<Rightarrow> js_get (Some result) ''data''
                       | Some es \<Rightarrow>
                           if js_truthy es
                           then Inl (Error (''GraphQL Error: '' @ JSON_stringify es))
                           else js_get (Some result) ''data''))))"

text \<open>\<open>FedshiAPIClient.processCSVAndCreateShipmentPack(file)\<close>.  The argument
  \<open>parsed\<close> is what \<open>await this.parseCSVFile(file)\<close> gives: a rejection, or the
  shipment identifiers and the courier identifier read from the file (a number, or
  \<open>null\<close>).\<close>

record csv_data =
  shipmentIDs :: "string list"
  courierID :: json

definition AddShipmentPackV2_query :: string where
  "AddShipmentPackV2_query =
     [CHR 0x0A]
     @ ''            mutation AddShipmentPackV2($request: AddShipmentPackRequestV2!) {''
     @ [CHR 0x0A]
     @ ''                AddShipmentPackV2(Request: $request) {''
     @ [CHR 0x0A]
     @ ''                    ID''
     @ [CHR 0x0A]
     @ ''                    Courier''
     @ [CHR 0x0A]
     @ ''                    OrderShipments {''
     @ [CHR 0x0A]
     @ ''                        ID''
     @ [CHR 0x0A]
     @ ''                    }''
     @ [CHR 0x0A]
     @ ''                }''
     @ [CHR 0x0A]
     @ ''            }''
     @ [CHR 0x0A]
     @ ''        ''"

definition processCSV_request :: "client \<Rightarrow> app option \<Rightarrow> string \<Rightarrow> csv_data \<Rightarrow> http_request" where
  "processCSV_request c window_app now csvData =
     (let query = AddShipmentPackV2_query;
          variables =
            JObj [(''request'',
                   JObj [(''OrderShipmentIDs'', JArr (map JStr (shipmentIDs csvData))),
                         (''DeliveryCourierID'', courierID csvData),
                         (''Type'', JStr ''shipping'')])];
          timestamp = now;
          method = ''POST'';
          path = ''/graphql/third-party'';
          body = JSON_stringify (JObj [(''query'', JStr query), (''variables'', variables)]);
          signature = FedshiAPIClient_generateSignature c method path body timestamp;
          headers =
            [(''Content-Type'', ''application/json''),
             (''X-API-Key'', apiKey c),
             (''X-API-Signature'', signature),
             (''X-API-Timestamp'', timestamp)];
          headers =
            (case window_app of
               None \<Rightarrow> headers
             | Some a \<Rightarrow>
                 if js_truthy (fedshiJwtToken a)
                 then headers @ [(''Authorization'', ''Bearer '' @ js_toString (fedshiJwtToken a))]
                 else headers)
      in \<lparr>req_url = baseUrl c @ ''/graphql/third-party'', req_method = ''POST'',
          req_headers = headers, req_body = TextBody body\<rparr>)"

definition processCSVAndCreateShipmentPack ::
  "client \<Rightarrow> app option \<Rightarrow> string \<Rightarrow> fetch \<Rightarrow> js_error + csv_data \<Rightarrow> js_error + json option" where
  "processCSVAndCreateShipmentPack c window_app now fetch parsed =
     (case parsed of
        Inl e \<Rightarrow> Inl e
      | Inr csvData \<Rightarrow>
          if length (shipmentIDs csvData) = 0
          then Inl (Error ''No shipment IDs found in CSV file'')
          else
            (case fetch (processCSV_request c window_app now csvData) of
               Inl e \<Rightarrow> Inl e
             | Inr response \<Rightarrow>
                 (case json_of_response response of
                    Inl e \<Rightarrow> Inl e
                  | Inr result \<Rightarrow>
                      (case js_get (Some result) ''errors'' of
                         Inl e \<Rightarrow> Inl e
                       | Inr errors \<Rightarrow>
                           if truthy errors then
                             (case js_index0 errors of
                                Inl e \<Rightarrow> Inl e
                              | Inr firstError \<Rightarrow>
                                  (case js_get firstError ''message'' of
                                     Inl e \<Rightarrow> Inl e
                                   | Inr message \<Rightarrow>
                                       (case message of
                                          None \<Rightarrow> Inl (Error ''Unknown GraphQL error'')
                                        | Some m \<Rightarrow>
                                            if js_truthy m then Inl (Error (js_toString m))
                                            else Inl (Error ''Unknown GraphQL error''))))
                           else
                             (case js_get (Some result) ''data'' of
                                Inl e \<Rightarrow> Inl e
                              | Inr data \<Rightarrow> js_get data ''AddShipmentPackV2'')))))"

section \<open>The Node.js SDK\<close>

text \<open>\<open>ThirdPartyAPIClient.makeRequest(method, path, body = null)\<close>.\<close>

definition ThirdPartyAPIClient_makeRequest_request ::
  "client \<Rightarrow> string \<Rightarrow> string \<Rightarrow> string \<Rightarrow> json \<Rightarrow> http_request" where
  "ThirdPartyAPIClient_makeRequest_request c now method path body =
     (let timestamp = now;
          bodyString = (if js_truthy body then JSON_stringify body else []);
          signature = ThirdPartyAPIClient_generateSignature c method path bodyString timestamp;
          headers =
            [(''X-API-Key'', apiKey c),
             (''X-API-Signature'', signature),
             (''X-API-Timestamp'', timestamp),
             (''Content-Type'', ''application/json'')];
          url = baseUrl c @ path
      in \<lparr>req_url = url, req_method = method, req_headers = headers,
          req_body = (if bodyString \<noteq> [] then TextBody bodyString else NoBody)\<rparr>)"

definition ThirdPartyAPIClient_makeRequest ::
  "client \<Rightarrow> string \<Rightarrow> fetch \<Rightarrow> string \<Rightarrow> string \<Rightarrow> json \<Rightarrow> js_error + json" where
  "ThirdPartyAPIClient_makeRequest c now fetch method path body =
     (case fetch (ThirdPartyAPIClient_makeRequest_request c now method path body) of
        Inl e \<Rightarrow> Inl e
      | Inr response \<Rightarrow>
          if \<not> response_ok response then
            (let errorData = (case json_of_response response of Inl e \<Rightarrow> JObj [] | Inr v \<Rightarrow> v)
             in case js_get (Some errorData) ''error'' of
                  Inl e \<Rightarrow> Inl e
                | Inr err \<Rightarrow>
                    Inl (Error (''API request failed: '' @ decimal (status response) @ '' ''
                          @ statusText response @ '' - ''
                          @ (case err of
                               None \<Rightarrow> ''Unknown error''
                             | Some v \<Rightarrow> if js_truthy v then js_toString v else ''Unknown error''))))
          else json_of_response response)"

text \<open>\<open>ThirdPartyAPIClient.exportOrderShipmentReceipt(orderShipmentID)\<close>: a \<open>GET\<close> of
  the receipt path followed by the identifier, as the caller gave it.\<close>

definition ThirdPartyAPIClient_exportOrderShipmentReceipt_request ::
  "client \<Rightarrow> string \<Rightarrow> string \<Rightarrow> http_request" where
  "ThirdPartyAPIClient_exportOrderShipmentReceipt_request c now orderShipmentID =
     (let path = ''/api/v1/third-party/export-order-shipment-receipt/'' @ orderShipmentID
      in ThirdPartyAPIClient_makeRequest_request c now ''GET'' path JNull)"

section \<open>The GraphQL quick start guide\<close>

text \<open>\<open>FedshiGraphQLClient.makeRequest(query, variables = {})\<close>: the request goes to
  \<open>this.baseUrl\<close>, whose default value already ends with the GraphQL path.\<close>

definition FedshiGraphQLClient_makeRequest_request ::
  "client \<Rightarrow> string \<Rightarrow> string \<Rightarrow> json \<Rightarrow> http_request" where
  "FedshiGraphQLClient_makeRequest_request c now query variables =
     (let timestamp = now;
          method = ''POST'';
          path = ''/graphql/third-party'';
          body = JSON_stringify (JObj [(''query'', JStr query), (''variables'', variables)]);
          signature = FedshiGraphQLClient_generateSignature c method path body timestamp
      in \<lparr>req_url = baseUrl c, req_method = ''POST'',
          req_headers =
            [(''X-API-Key'', apiKey c),
             (''X-API-Signature'', signature),
             (''X-API-Timestamp'', timestamp),
             (''Content-Type'', ''application/json'')],
          req_body = TextBody body\<rparr>)"

definition FedshiGraphQLClient_makeRequest ::
  "client \<Rightarrow> string \<Rightarrow> fetch \<Rightarrow> string \<Rightarrow> json \<Rightarrow> js_error + json option" where
  "FedshiGraphQLClient_makeRequest c now fetch query variables =
     (case fetch (FedshiGraphQLClient_makeRequest_request c now query variables) of
        Inl e \<Rightarrow> Inl e
      | Inr response \<Rightarrow>
          (case json_of_response response of
             Inl e \<Rightarrow> Inl e
           | Inr result \<Rightarrow>
               (case js_get (Some result) ''errors'' of
                  Inl e \<Rightarrow> Inl e
                | Inr errors \<Rightarrow>
                    (case errors of
                       None \<Rightarrow> js_get (Some result) ''data''
                     | Some es \<Rightarrow>
                         if js_truthy es
                         then Inl (Error (''GraphQL Error: '' @ JSON_stringify es))
                         else js_get (Some result) ''data''))))"

text \<open>\<open>FedshiGraphQLClient.uploadShipmentPack(file)\<close>: a multipart request.  The
  signed body and the \<open>operations\<close> field are two calls of \<open>JSON.stringify\<close>; the second
  object literal of the source, \<open>{0: ['variables.file']}\<close>, is the \<open>map\<close> field.\<close>

definition UploadCSV_query_client :: string where
  "UploadCSV_query_client =
     [CHR 0x0A]
     @ ''      mutation UploadCSV($file: Upload!) {''
     @ [CHR 0x0A]
     @ ''        UploadShipmentPack(Request: {CsvFile: $file}) {''
     @ [CHR 0x0A]
     @ ''          ID''
     @ [CHR 0x0A]
     @ ''        }''
     @ [CHR 0x0A]
     @ ''      }''
     @ [CHR 0x0A]
     @ ''    ''"

definition FedshiGraphQLClient_uploadShipmentPack_request ::
  "client \<Rightarrow> string \<Rightarrow> byte list \<Rightarrow> http_request" where
  "FedshiGraphQLClient_uploadShipmentPack_request c now file =
     (let query = UploadCSV_query_client;
          variables = JObj [(''file'', JNull)];
          timestamp = now;
          method = ''POST'';
          path = ''/graphql/third-party'';
          body = JSON_stringify (JObj [(''query'', JStr query), (''variables'', variables)]);
          signature = FedshiGraphQLClient_generateSignature c method path body timestamp;
          formData =
            [(''operations'',
              FormString (JSON_stringify
                (JObj [(''query'', JStr query), (''variables'', JObj [(''file'', JNull)])]))),
             (''map'', FormString (JSON_stringify (JObj [(''0'', JArr [JStr ''variables.file''])]))),
             (''0'', FormFile file)]
      in \<lparr>req_url = baseUrl c, req_method = ''POST'',
          req_headers =
            [(''X-API-Key'', apiKey c),
             (''X-API-Signature'', signature),
             (''X-API-Timestamp'', timestamp)],
          req_body = FormData formData\<rparr>)"

definition FedshiGraphQLClient_uploadShipmentPack ::
  "client \<Rightarrow> string \<Rightarrow> fetch \<Rightarrow> byte list \<Rightarrow> js_error + json option" where
  "FedshiGraphQLClient_uploadShipmentPack c now fetch file =
     (case fetch (FedshiGraphQLClient_uploadShipmentPack_request c now file) of
        Inl e \<Rightarrow> Inl e
      | Inr response \<Rightarrow>
          (case json_of_response response of
             Inl e \<Rightarrow> Inl e
           | Inr result \<Rightarrow>
               (case js_get (Some result) ''errors'' of
                  Inl e \<Rightarrow> Inl e
                | Inr errors \<Rightarrow>
                    (case errors of
                       Some es \<Rightarrow>
                         if js_truthy es
                         then Inl (Error (''GraphQL Error: '' @ JSON_stringify es))
                         else
                           (case js_get (Some result) ''data'' of
                              Inl e \<Rightarrow> Inl e
                            | Inr data \<Rightarrow> js_get data ''UploadShipmentPack'')
                     | None \<Rightarrow>
                         (case js_get (Some result) ''data'' of
                            Inl e \<Rightarrow> Inl e
                          | Inr data \<Rightarrow> js_get data ''UploadShipmentPack'')))))"

text \<open>The free-standing example \<open>uploadShipmentPack(csvFile)\<close> of the same guide.  Its
  three local constants \<open>apiKey\<close>, \<open>secretKey\<close> and \<open>baseUrl\<close> are placeholders for the
  reader's credentials: they are the fields of the argument \<open>c\<close>.  The signature is
  computed in place, with CryptoJS.\<close>

definition UploadCSV_query_example :: string where
  "UploadCSV_query_example =
     [CHR 0x0A]
     @ ''    mutation UploadCSV($file: Upload!) {''
     @ [CHR 0x0A]
     @ ''      UploadShipmentPack(Request: {CsvFile: $file}) {''
     @ [CHR 0x0A]
     @ ''        ID''
     @ [CHR 0x0A]
     @ ''      }''
     @ [CHR 0x0A]
     @ ''    }''
     @ [CHR 0x0A]
     @ ''  ''"

definition uploadShipmentPack_request :: "client \<Rightarrow> string \<Rightarrow> byte list \<Rightarrow> http_request" where
  "uploadShipmentPack_request c now csvFile =
     (let query = UploadCSV_query_example;
          variables = JObj [(''file'', JNull)];
          timestamp = now;
          method = ''POST'';
          path = ''/graphql/third-party'';
          body = JSON_stringify (JObj [(''query'', JStr query), (''variables'', variables)]);
          toSign = stringToSign method path body timestamp (apiKey c);
          signature = hex_encode (CryptoJS_HmacSHA256 toSign (secretKey c));
          formData =
            [(''operations'',
              FormString (JSON_stringify
                (JObj [(''query'', JStr query), (''variables'', JObj [(''file'', JNull)])]))),
             (''map'', FormString (JSON_stringify (JObj [(''0'', JArr [JStr ''variables.file''])]))),
             (''0'', FormFile csvFile)]
      in \<lparr>req_url = baseUrl c, req_method = ''POST'',
          req_headers =
            [(''X-API-Key'', apiKey c),
             (''X-API-Signature'', signature),
             (''X-API-Timestamp'', timestamp)],
          req_body = FormData formData\<rparr>)"

text \<open>The free-standing JavaScript example \<open>exportOrderShipmentReceipt\<close> of the guide
  signs in place as well; the request takes the query text and the variables it has
  built.\<close>

definition exportOrderShipmentReceipt_request ::
  "client \<Rightarrow> string \<Rightarrow> string \<Rightarrow> json \<Rightarrow> http_request" where
  "exportOrderShipmentReceipt_request c now query variables =
     (let timestamp = now;
          method = ''POST'';
          path = ''/graphql/third-party'';
          body = JSON_stringify (JObj [(''query'', JStr query), (''variables'', variables)]);
          toSign = stringToSign method path body timestamp (apiKey c);
          signature = hex_encode (CryptoJS_HmacSHA256 toSign (secretKey c))
      in \<lparr>req_url = baseUrl c, req_method = ''POST'',
          req_headers =
            [(''X-API-Key'', apiKey c),
             (''X-API-Signature'', signature),
             (''X-API-Timestamp'', timestamp),
             (''Content-Type'', ''application/json'')],
          req_body = TextBody body\<rparr>)"

text \<open>The Python example \<open>export_order_shipment_receipt\<close> of the guide.
  \<open>hmac.new(key.encode('utf-8'), msg.encode('utf-8'), hashlib.sha256).hexdigest()\<close>
  is the same HMAC; the string it signs ends with the timestamp.  The body is what
  \<open>json.dumps\<close> made of the query and the variables.\<close>

definition py_hmac_hexdigest :: "string \<Rightarrow> string \<Rightarrow> string" where
  "py_hmac_hexdigest key msg = hex_encode (hmac_sha256 (utf8 key) (utf8 msg))"

definition py_export_string_to_sign :: "string \<Rightarrow> string \<Rightarrow> string \<Rightarrow> string \<Rightarrow> string" where
  "py_export_string_to_sign method path body timestamp =
     method @ [CHR 0x0A] @ path @ [CHR 0x0A] @ body @ [CHR 0x0A] @ timestamp"

definition py_export_signature :: "string \<Rightarrow> string \<Rightarrow> string \<Rightarrow> string \<Rightarrow> string \<Rightarrow> string" where
  "py_export_signature secret_key method path body timestamp =
     (let string_to_sign = py_export_string_to_sign method path body timestamp
      in py_hmac_hexdigest secret_key string_to_sign)"

definition py_export_request :: "client \<Rightarrow> string \<Rightarrow> string \<Rightarrow> http_request" where
  "py_export_request c now body =
     (let timestamp = now;
          method = ''POST'';
          path = ''/graphql/third-party'';
          signature = py_export_signature (secretKey c) method path body timestamp;
          headers =
            [(''X-API-Key'', apiKey c),
             (''X-API-Signature'', signature),
             (''X-API-Timestamp'', timestamp),
             (''Content-Type'', ''application/json'')]
      in \<lparr>req_url = baseUrl c, req_method = ''POST'', req_headers = headers,
          req_body = TextBody body\<rparr>)"

section \<open>The quick start guide (docs/THIRD_PARTY_QUICK_START.md)\<close>

text \<open>\<open>ThirdPartyAPIClient\<close> of the guide keeps a token beside the credentials:
  \<open>null\<close> at first, then whatever \<open>result.data.Token\<close> was (\<open>undefined\<close> is
  \<^const>\<open>None\<close>).  Its signer reads the clock itself and returns the signature with
  the timestamp.  The Python class of the guide is the same code line by line.\<close>

record session_client = client +
  jwtToken :: "json option"

definition QuickStart_generateSignature ::
  "session_client \<Rightarrow> string \<Rightarrow> string \<Rightarrow> string \<Rightarrow> string \<Rightarrow> string \<times> string" where
  "QuickStart_generateSignature c now method path body =
     (let timestamp = now;
          s = stringToSign method path body timestamp (apiKey c);
          signature = hmac_digest_hex (hmac_update (createHmac_sha256 (secretKey c)) s)
      in (signature, timestamp))"

definition QuickStart_getHeaders ::
  "session_client \<Rightarrow> string \<Rightarrow> string \<Rightarrow> string \<Rightarrow> string \<Rightarrow> (string \<times> string) list" where
  "QuickStart_getHeaders c now method path body =
     (case QuickStart_generateSignature c now method path body of
        (signature, timestamp) \<Rightarrow>
          (let headers =
                 [(''X-API-Key'', apiKey c),
                  (''X-API-Signature'', signature),
                  (''X-API-Timestamp'', timestamp),
                  (''Content-Type'', ''application/json'')]
           in case jwtToken c of
                None \<Rightarrow> headers
              | Some t \<Rightarrow>
                  if js_truthy t
                  then headers @ [(''Authorization'', ''Bearer '' @ js_toString t)]
                  else headers))"

definition QuickStart_login_request ::
  "session_client \<Rightarrow> string \<Rightarrow> string \<Rightarrow> string \<Rightarrow> http_request" where
  "QuickStart_login_request c now email password =
     (let method = ''POST'';
          path = ''/api/v1/third-party/admin/login'';
          body = JSON_stringify (JObj [(''Email'', JStr email), (''Password'', JStr password)]);
          headers = QuickStart_getHeaders c now method path body
      in \<lparr>req_url = baseUrl c @ path, req_method = ''POST'', req_headers = headers,
          req_body = TextBody body\<rparr>)"

text \<open>\<open>login\<close> returns the outcome and the client as the call leaves it.\<close>

definition QuickStart_login ::
  "session_client \<Rightarrow> string \<Rightarrow> fetch \<Rightarrow> string \<Rightarrow> string \<Rightarrow> (js_error + json) \<times> session_client" where
  "QuickStart_login c now fetch email password =
     (case fetch (QuickStart_login_request c now email password) of
        Inl e \<Rightarrow> (Inl e, c)
      | Inr response \<Rightarrow>
          if response_ok response then
            (case json_of_response response of
               Inl e \<Rightarrow> (Inl e, c)
             | Inr result \<Rightarrow>
                 (case js_get (Some result) ''data'' of
                    Inl e \<Rightarrow> (Inl e, c)
                  | Inr data \<Rightarrow>
                      (case js_get data ''Token'' of
                         Inl e \<Rightarrow> (Inl e, c)
                       | Inr token \<Rightarrow> (Inr result, c\<lparr>jwtToken := token\<rparr>))))
          else
            (Inl (Error (''Login failed: '' @ decimal (status response) @ '' - ''
                         @ response_text response)), c))"

definition QuickStart_makeGraphQLRequest_request ::
  "session_client \<Rightarrow> string \<Rightarrow> string \<Rightarrow> json \<Rightarrow> http_request" where
  "QuickStart_makeGraphQLRequest_request c now query variables =
     (let method = ''POST'';
          path = ''/graphql/third-party'';
          payload = [(''query'', JStr query)];
          payload = (if js_truthy variables then payload @ [(''variables'', variables)] else payload);
          body = JSON_stringify (JObj payload);
          headers = QuickStart_getHeaders c now method path body
      in \<lparr>req_url = baseUrl c @ path, req_method = ''POST'', req_headers = headers,
          req_body = TextBody body\<rparr>)"

definition QuickStart_makeGraphQLRequest ::
  "session_client \<Rightarrow> string \<Rightarrow> fetch \<Rightarrow> string \<Rightarrow> json \<Rightarrow> js_error + json" where
  "QuickStart_makeGraphQLRequest c now fetch query variables =
     (case fetch (QuickStart_makeGraphQLRequest_request c now query variables) of
        Inl e \<Rightarrow> Inl e
      | Inr response \<Rightarrow>
          if response_ok response then json_of_response response
          else Inl (Error (''GraphQL request failed: '' @ decimal (status response) @ '' - ''
                           @ response_text response)))"

text \<open>The Python signer of the guide, \<open>generate_signature(self, method, path, body="")\<close>.\<close>

definition py_generate_signature ::
  "session_client \<Rightarrow> string \<Rightarrow> string \<Rightarrow> string \<Rightarrow> string \<Rightarrow> string \<times> string" where
  "py_generate_signature c now method path body =
     (let timestamp = now;
          string_to_sign =
            method @ [CHR 0x0A] @ path @ [CHR 0x0A] @ body @ [CHR 0x0A] @ timestamp
              @ [CHR 0x0A] @ apiKey c;
          signature = py_hmac_hexdigest (secretKey c) string_to_sign
      in (signature, timestamp))"

section \<open>Notions used to state the properties\<close>













text \<open>A request is signed with its own timestamp: it has a timestamp header, and its
  signature header is the HMAC, under the secret, of the text made with that
  timestamp.\<close>

definition same_timestamp_signed :: "http_request \<Rightarrow> string \<Rightarrow> (string \<Rightarrow> string) \<Rightarrow> bool" where
  "same_timestamp_signed r secret text_of =
     (case map_of (req_headers r) ''X-API-Timestamp'' of
        None \<Rightarrow> False
      | Some ts \<Rightarrow>
          map_of (req_headers r) ''X-API-Signature''
            = Some (hex_encode (hmac_sha256 (utf8 secret) (utf8 (text_of ts)))))"

text \<open>The lines of a text, cut at every line feed (\<open>split('\n')\<close>).\<close>

fun text_lines :: "string \<Rightarrow> string list" where
  "text_lines [] = [[]]"
| "text_lines (c # s) =
     (if c = CHR 0x0A then [] # text_lines s
      else (case text_lines s of l # ls \<Rightarrow> (c # l) # ls | [] \<Rightarrow> [[c]]))"

text \<open>Reading UTF-8 back, for the code points the model has.\<close>

fun utf8_decode :: "byte list \<Rightarrow> string" where
  "utf8_decode [] = []"
| "utf8_decode [b] = [char_of (unat b)]"
| "utf8_decode (b # b' # bs) =
     (if unat b < 128 then char_of (unat b) # utf8_decode (b' # bs)
      else char_of ((unat b - 192) * 64 + (unat b' - 128)) # utf8_decode bs)"

text \<open>A request agrees with a signed text on the timestamp: its signature header is
  the HMAC of the text under the secret, the text has a fourth line, and the timestamp
  header is that line.\<close>

definition signed_timestamp_agrees :: "http_request \<Rightarrow> string \<Rightarrow> string \<Rightarrow> bool" where
  "signed_timestamp_agrees r secret txt =
     (map_of (req_headers r) ''X-API-Signature''
        = Some (hex_encode (hmac_sha256 (utf8 secret) (utf8 txt)))
      \<and> 3 < length (text_lines txt)
      \<and> map_of (req_headers r) ''X-API-Timestamp'' = Some (text_lines txt ! 3))"

text \<open>A GraphQL answer with status 200 and one error, whose message quotes a name:
  \<open>Cannot query field "foo"\<close>.\<close>

definition graphql_error_message :: string where
  "graphql_error_message = ''Cannot query field '' @ [CHR 0x22] @ ''foo'' @ [CHR 0x22]"

definition graphql_error_body :: json where
  "graphql_error_body =
     JObj [(''errors'', JArr [JObj [(''message'', JStr graphql_error_message)]])]"

definition graphql_error_response :: http_response where
  "graphql_error_response =
     \<lparr>status = 200, statusText = ''OK'',
      response_text = JSON_stringify graphql_error_body,
      response_json = Some graphql_error_body\<rparr>"

section \<open>Properties of the encodings\<close>


lemma hex_digit_in_digits: "hex_digit n \<in> set hex_digits"
proof -
  have "n mod 16 < length hex_digits" by (simp add: hex_digits_def)
  then show ?thesis unfolding hex_digit_def by (rule nth_mem)
qed


lemma hex_value_table: "list_all (\<lambda>m. hex_value (hex_digits ! m) = m) [0..<16]"
  by code_simp

lemma hex_value_digit: "hex_value (hex_digit n) = n mod 16"
proof -
  have "n mod 16 \<in> set [0..<16]" by simp
  with hex_value_table show ?thesis
    unfolding hex_digit_def list_all_iff by blast
qed

lemma hex_decode_byte: "hex_decode (hex_byte b @ s) = b # hex_decode s"
proof -
  have "unat b < 256" using unsigned_less [of b] by simp
  then have "16 * (unat b div 16 mod 16) + unat b mod 16 mod 16 = unat b" by simp
  then show ?thesis by (simp add: hex_byte_def hex_value_digit)
qed

lemma hex_decode_encode: "hex_decode (hex_encode bs) = bs"
  by (induction bs) (simp_all add: hex_encode_def hex_decode_byte)

lemma hex_encode_inject: "hex_encode xs = hex_encode ys \<longleftrightarrow> xs = ys"
  by (metis hex_decode_encode)

lemma unat_byte_of_nat: "n < 256 \<Longrightarrow> unat (of_nat n :: byte) = n"
  by (simp add: unat_of_nat)

lemma utf8_decode_char: "utf8_decode (utf8_char c @ bs) = c # utf8_decode bs"
proof -
  define n where "n = (of_char c :: nat)"
  have n: "n < 256" by (simp add: n_def)
  show ?thesis
  proof (cases "n < 128")
    case True
    then have "utf8_char c = [of_nat n]" by (simp add: utf8_char_def n_def)
    moreover have "unat (of_nat n :: byte) = n" using n by (rule unat_byte_of_nat)
    moreover have "char_of n = c" by (simp add: n_def)
    ultimately show ?thesis using True by (cases bs) simp_all
  next
    case False
    have d: "192 + n div 64 < 256" and m: "128 + n mod 64 < 256" using n by simp_all
    have "utf8_char c = [of_nat (192 + n div 64), of_nat (128 + n mod 64)]"
      using False by (simp add: utf8_char_def n_def Let_def)
    moreover have "unat (of_nat (192 + n div 64) :: byte) = 192 + n div 64"
      using d by (rule unat_byte_of_nat)
    moreover have "unat (of_nat (128 + n mod 64) :: byte) = 128 + n mod 64"
      using m by (rule unat_byte_of_nat)
    moreover have "char_of (n div 64 * 64 + n mod 64) = c" by (simp add: n_def)
    ultimately show ?thesis by simp
  qed
qed

lemma utf8_decode_utf8: "utf8_decode (utf8 s) = s"
  by (induction s) (simp_all add: utf8_def utf8_decode_char)

lemma utf8_inject: "utf8 s = utf8 t \<longleftrightarrow> s = t"
  by (metis utf8_decode_utf8)

section \<open>The digest has 32 bytes\<close>





section \<open>The signer\<close>





section \<open>Login\<close>

text \<open>
  C5.  When the login request is answered with a status outside 200..299,
  \<open>FedshiAPIClient.authenticate\<close> throws the error "Authentication failed: " followed
  by the status, and \<open>loginFedshi\<close> leaves the stored token as it was; the login of the
  quick start guide's client throws "Login failed: ..." and leaves the whole client,
  its token included, as it was.
\<close>

theorem login_failure_keeps_token:
  "\<not> response_ok response \<Longrightarrow>
     (fetch (authenticate_request c now username password) = Inr response \<longrightarrow>
        authenticate c now fetch username password =
          Inl (Error (''Authentication failed: '' @ decimal (status response)))
        \<and> (fedshiClient a = Some c \<longrightarrow>
             fedshiJwtToken (loginFedshi a now fetch username password) = fedshiJwtToken a))
     \<and> (fetch (QuickStart_login_request sc now username password) = Inr response \<longrightarrow>
        QuickStart_login sc now fetch username password =
          (Inl (Error (''Login failed: '' @ decimal (status response) @ '' - ''
                       @ response_text response)), sc))"
  by (simp add: authenticate_def loginFedshi_def QuickStart_login_def)



theorem login_failure_keeps_token_witness:
  "\<not> response_ok \<lparr>status = 401, statusText = ''Unauthorized'', response_text = ''denied'',
                    response_json = None\<rparr>
   \<and> authenticate \<lparr>apiKey = ''key1'', secretKey = ''secret'', baseUrl = ''https://a.example''\<rparr>
         ''2024-01-15T10:30:45Z''
         (\<lambda>r. Inr \<lparr>status = 401, statusText = ''Unauthorized'', response_text = ''denied'',
                     response_json = None\<rparr>)
         ''admin@example.com'' ''admin_password''
       = Inl (Error ''Authentication failed: 401'')
   \<and> fedshiJwtToken
         (loginFedshi
           \<lparr>fedshiClient = Some \<lparr>apiKey = ''key1'', secretKey = ''secret'', baseUrl = ''https://a.example''\<rparr>,
            fedshiJwtToken = JStr ''earlier-token'', authenticationStatus_fedshi = True\<rparr>
           ''2024-01-15T10:30:45Z''
           (\<lambda>r. Inr \<lparr>status = 401, statusText = ''Unauthorized'', response_text = ''denied'',
                       response_json = None\<rparr>)
           ''admin@example.com'' ''admin_password'')
       = JStr ''earlier-token''
   \<and> QuickStart_login
         \<lparr>apiKey = ''key1'', secretKey = ''secret'', baseUrl = ''https://a.example'',
          jwtToken = Some JNull\<rparr>
         ''2024-01-15T10:30:45Z''
         (\<lambda>r. Inr \<lparr>status = 401, statusText = ''Unauthorized'', response_text = ''denied'',
                     response_json = None\<rparr>)
         ''admin@example.com'' ''admin_password''
       = (Inl (Error ''Login failed: 401 - denied''),
          \<lparr>apiKey = ''key1'', secretKey = ''secret'', baseUrl = ''https://a.example'',
           jwtToken = Some JNull\<rparr>)"
  using login_failure_keeps_token
    [of "\<lparr>status = 401, statusText = ''Unauthorized'', response_text = ''denied'',
           response_json = None\<rparr>"
        "\<lambda>r. Inr \<lparr>status = 401, statusText = ''Unauthorized'', response_text = ''denied'',
                     response_json = None\<rparr>"
        "\<lparr>apiKey = ''key1'', secretKey = ''secret'', baseUrl = ''https://a.example''\<rparr>"
        "''2024-01-15T10:30:45Z''" "''admin@example.com''" "''admin_password''"
        "\<lparr>fedshiClient = Some \<lparr>apiKey = ''key1'', secretKey = ''secret'', baseUrl = ''https://a.example''\<rparr>,
          fedshiJwtToken = JStr ''earlier-token'', authenticationStatus_fedshi = True\<rparr>"
        "\<lparr>apiKey = ''key1'', secretKey = ''secret'', baseUrl = ''https://a.example'',
          jwtToken = Some JNull\<rparr>"]
  by (simp add: response_ok_def digit_char_def decimal.simps)


section \<open>Multipart uploads\<close>

text \<open>
  C6.  In a file upload (\<open>FedshiGraphQLClient.uploadShipmentPack\<close> and the free-standing
  \<open>uploadShipmentPack\<close> of the GraphQL guide) the body given to the signer is the JSON
  text of the GraphQL operations envelope, the same text as the \<open>operations\<close> field of
  the form; the file is only the part named \<open>0\<close> and takes no part in the signature.
  The headers are the API key, the signature and the timestamp: there is no
  \<open>Content-Type\<close>.
\<close>

theorem upload_signs_operations_envelope:
  "req_body (FedshiGraphQLClient_uploadShipmentPack_request c now file) =
     FormData
       [(''operations'',
         FormString (JSON_stringify (JObj [(''query'', JStr UploadCSV_query_client),
                                           (''variables'', JObj [(''file'', JNull)])]))),
        (''map'', FormString (JSON_stringify (JObj [(''0'', JArr [JStr ''variables.file''])]))),
        (''0'', FormFile file)]
   \<and> req_headers (FedshiGraphQLClient_uploadShipmentPack_request c now file) =
       [(''X-API-Key'', apiKey c),
        (''X-API-Signature'',
         FedshiGraphQLClient_generateSignature c ''POST'' ''/graphql/third-party''
           (JSON_stringify (JObj [(''query'', JStr UploadCSV_query_client),
                                  (''variables'', JObj [(''file'', JNull)])])) now),
        (''X-API-Timestamp'', now)]
   \<and> map_of (req_headers (FedshiGraphQLClient_uploadShipmentPack_request c now file))
         ''Content-Type'' = None
   \<and> req_body (uploadShipmentPack_request c now file) =
     FormData
       [(''operations'',
         FormString (JSON_stringify (JObj [(''query'', JStr UploadCSV_query_example),
                                           (''variables'', JObj [(''file'', JNull)])]))),
        (''map'', FormString (JSON_stringify (JObj [(''0'', JArr [JStr ''variables.file''])]))),
        (''0'', FormFile file)]
   \<and> req_headers (uploadShipmentPack_request c now file) =
       [(''X-API-Key'', apiKey c),
        (''X-API-Signature'',
         hex_encode (CryptoJS_HmacSHA256
           (stringToSign ''POST'' ''/graphql/third-party''
              (JSON_stringify (JObj [(''query'', JStr UploadCSV_query_example),
                                     (''variables'', JObj [(''file'', JNull)])])) now (apiKey c))
           (secretKey c))),
        (''X-API-Timestamp'', now)]
   \<and> map_of (req_headers (uploadShipmentPack_request c now file)) ''Content-Type'' = None"
  by (simp add: FedshiGraphQLClient_uploadShipmentPack_request_def uploadShipmentPack_request_def
      Let_def del: JSON_stringify.simps)


section \<open>Where the signer fails\<close>
















section \<open>Timestamps and signatures\<close>

text \<open>
  Two distinct timestamps give two distinct texts to sign, and two distinct byte
  sequences, so the two signatures are equal exactly when HMAC-SHA256 gives two
  distinct messages the same digest.
\<close>

lemma stringToSign_timestamp_inject:
  "stringToSign method path body t1 key = stringToSign method path body t2 key \<longleftrightarrow> t1 = t2"
  by (simp add: stringToSign_def)

lemma distinct_timestamps_sign_distinct_strings:
  "t1 \<noteq> t2 \<Longrightarrow>
     stringToSign method path body t1 (apiKey c) \<noteq> stringToSign method path body t2 (apiKey c)
     \<and> utf8 (stringToSign method path body t1 (apiKey c))
         \<noteq> utf8 (stringToSign method path body t2 (apiKey c))
     \<and> (FedshiAPIClient_generateSignature c method path body t1
          = FedshiAPIClient_generateSignature c method path body t2
        \<longleftrightarrow> hmac_sha256 (utf8 (secretKey c)) (utf8 (stringToSign method path body t1 (apiKey c)))
            = hmac_sha256 (utf8 (secretKey c)) (utf8 (stringToSign method path body t2 (apiKey c))))
     \<and> (ThirdPartyAPIClient_generateSignature c method path body t1
          = ThirdPartyAPIClient_generateSignature c method path body t2
        \<longleftrightarrow> hmac_sha256 (utf8 (secretKey c)) (utf8 (stringToSign method path body t1 (apiKey c)))
            = hmac_sha256 (utf8 (secretKey c)) (utf8 (stringToSign method path body t2 (apiKey c))))"
  by (simp add: stringToSign_timestamp_inject utf8_inject hex_encode_inject
      FedshiAPIClient_generateSignature_def ThirdPartyAPIClient_generateSignature_def
      CryptoJS_HmacSHA256_def createHmac_sha256_def hmac_update_def hmac_digest_hex_def Let_def)

section \<open>Headers and address of a request\<close>

text \<open>
  C7, as the code has it.  \<open>makeGraphQLRequest\<close> of the browser tool and every request
  of the quick start guide's client (built by \<open>getHeaders\<close>) carry the API key, the
  signature, the timestamp and \<open>Content-Type: application/json\<close>, followed by
  \<open>Authorization: Bearer\<close> and the token exactly when a token is held, and go to the
  base URL followed by the path; \<open>processCSVAndCreateShipmentPack\<close> sends the same
  headers with \<open>Content-Type\<close> first.  The login request of the browser tool and the
  requests of the Node.js SDK carry the four headers only, whatever token is held.
  \<open>FedshiGraphQLClient.makeRequest\<close> carries the four headers and goes to the base URL
  itself.
\<close>

theorem invoker_headers:
  "req_headers (makeGraphQLRequest_request c window_app now query variables) =
     [(''X-API-Key'', apiKey c),
      (''X-API-Signature'',
       FedshiAPIClient_generateSignature c ''POST'' ''/graphql/third-party''
         (JSON_stringify (JObj [(''query'', JStr query), (''variables'', variables)])) now),
      (''X-API-Timestamp'', now),
      (''Content-Type'', ''application/json'')]
     @ (case window_app of
          None \<Rightarrow> []
        | Some a \<Rightarrow>
            if js_truthy (fedshiJwtToken a)
            then [(''Authorization'', ''Bearer '' @ js_toString (fedshiJwtToken a))] else [])
   \<and> req_url (makeGraphQLRequest_request c window_app now query variables) =
       baseUrl c @ ''/graphql/third-party''
   \<and> set (req_headers (processCSV_request c window_app now csvData)) =
     set (req_headers (makeGraphQLRequest_request c window_app now AddShipmentPackV2_query
       (JObj [(''request'',
               JObj [(''OrderShipmentIDs'', JArr (map JStr (shipmentIDs csvData))),
                     (''DeliveryCourierID'', courierID csvData),
                     (''Type'', JStr ''shipping'')])])))
   \<and> req_url (processCSV_request c window_app now csvData) = baseUrl c @ ''/graphql/third-party''
   \<and> QuickStart_getHeaders sc now method path body =
     [(''X-API-Key'', apiKey sc),
      (''X-API-Signature'', fst (QuickStart_generateSignature sc now method path body)),
      (''X-API-Timestamp'', now),
      (''Content-Type'', ''application/json'')]
     @ (case jwtToken sc of
          None \<Rightarrow> []
        | Some t \<Rightarrow>
            if js_truthy t then [(''Authorization'', ''Bearer '' @ js_toString t)] else [])
   \<and> req_headers (QuickStart_makeGraphQLRequest_request sc now query variables) =
       QuickStart_getHeaders sc now ''POST'' ''/graphql/third-party''
         (JSON_stringify (JObj ([(''query'', JStr query)]
            @ (if js_truthy variables then [(''variables'', variables)] else []))))
   \<and> req_url (QuickStart_makeGraphQLRequest_request sc now query variables) =
       baseUrl sc @ ''/graphql/third-party''
   \<and> req_headers (QuickStart_login_request sc now username password) =
       QuickStart_getHeaders sc now ''POST'' ''/api/v1/third-party/admin/login''
         (JSON_stringify (JObj [(''Email'', JStr username), (''Password'', JStr password)]))
   \<and> req_url (QuickStart_login_request sc now username password) =
       baseUrl sc @ ''/api/v1/third-party/admin/login''
   \<and> req_headers (authenticate_request c now username password) =
     [(''X-API-Key'', apiKey c),
      (''X-API-Signature'',
       FedshiAPIClient_generateSignature c ''POST'' ''/api/v1/third-party/admin/login''
         (JSON_stringify (JObj [(''email'', JStr username), (''password'', JStr password)])) now),
      (''X-API-Timestamp'', now),
      (''Content-Type'', ''application/json'')]
   \<and> req_url (authenticate_request c now username password) =
       baseUrl c @ ''/api/v1/third-party/admin/login''
   \<and> req_headers (ThirdPartyAPIClient_makeRequest_request c now method path payload) =
     [(''X-API-Key'', apiKey c),
      (''X-API-Signature'',
       ThirdPartyAPIClient_generateSignature c method path
         (if js_truthy payload then JSON_stringify payload else []) now),
      (''X-API-Timestamp'', now),
      (''Content-Type'', ''application/json'')]
   \<and> req_url (ThirdPartyAPIClient_makeRequest_request c now method path payload) =
       baseUrl c @ path
   \<and> req_headers (FedshiGraphQLClient_makeRequest_request c now query variables) =
     [(''X-API-Key'', apiKey c),
      (''X-API-Signature'',
       FedshiGraphQLClient_generateSignature c ''POST'' ''/graphql/third-party''
         (JSON_stringify (JObj [(''query'', JStr query), (''variables'', variables)])) now),
      (''X-API-Timestamp'', now),
      (''Content-Type'', ''application/json'')]
   \<and> req_url (FedshiGraphQLClient_makeRequest_request c now query variables) = baseUrl c"
  by (auto simp add: makeGraphQLRequest_request_def processCSV_request_def
      QuickStart_getHeaders_def QuickStart_login_request_def
      QuickStart_generateSignature_def QuickStart_makeGraphQLRequest_request_def
      authenticate_request_def FedshiGraphQLClient_makeRequest_request_def
      ThirdPartyAPIClient_makeRequest_request_def Let_def
      split: option.split simp del: JSON_stringify.simps)

text \<open>
  C7 as stated fails twice.  After a login has stored a token, the next login request
  of the browser tool still has no \<open>Authorization\<close> header; and
  \<open>FedshiGraphQLClient.makeRequest\<close> sends to the base URL (which by default already
  ends with the GraphQL path), not to the base URL followed by the path.
\<close>

theorem login_request_omits_held_token:
  "js_truthy (fedshiJwtToken
      \<lparr>fedshiClient = Some \<lparr>apiKey = ''key1'', secretKey = ''secret'', baseUrl = ''https://a.example''\<rparr>,
       fedshiJwtToken = JStr ''earlier-token'', authenticationStatus_fedshi = True\<rparr>)
   \<and> map_option (\<lambda>r. map_of (req_headers r) ''Authorization'')
        (loginFedshi_request
          \<lparr>fedshiClient = Some \<lparr>apiKey = ''key1'', secretKey = ''secret'', baseUrl = ''https://a.example''\<rparr>,
           fedshiJwtToken = JStr ''earlier-token'', authenticationStatus_fedshi = True\<rparr>
          ''2024-01-15T10:30:45Z'' ''admin@example.com'' ''admin_password'')
       = Some None
   \<and> req_url (FedshiGraphQLClient_makeRequest_request
         \<lparr>apiKey = ''key1'', secretKey = ''secret'',
          baseUrl = ''https://admin-api.app.fedshi.com/graphql/third-party''\<rparr>
         ''2024-01-15T10:30:45Z'' ''{ Orders { Total } }'' (JObj []))
       = ''https://admin-api.app.fedshi.com/graphql/third-party''
   \<and> req_url (FedshiGraphQLClient_makeRequest_request
         \<lparr>apiKey = ''key1'', secretKey = ''secret'',
          baseUrl = ''https://admin-api.app.fedshi.com/graphql/third-party''\<rparr>
         ''2024-01-15T10:30:45Z'' ''{ Orders { Total } }'' (JObj []))
       \<noteq> baseUrl \<lparr>apiKey = ''key1'', secretKey = ''secret'',
                   baseUrl = ''https://admin-api.app.fedshi.com/graphql/third-party''\<rparr>
           @ ''/graphql/third-party''"
  by (simp add: loginFedshi_request_def authenticate_request_def
      FedshiGraphQLClient_makeRequest_request_def Let_def del: JSON_stringify.simps)

section \<open>Line feeds in what is signed\<close>


lemma digit_char_in_digits: "digit_char n \<in> set ''0123456789''"
proof -
  have "n mod 10 < length ''0123456789''" by simp
  then show ?thesis unfolding digit_char_def by (rule nth_mem)
qed

lemma set_decimal: "set (decimal n) \<subseteq> set ''0123456789''"
proof (induction n rule: decimal.induct)
  case (1 n)
  show ?case
  proof (cases "n < 10")
    case True
    then show ?thesis using digit_char_in_digits [of n] by (subst decimal.simps) simp
  next
    case False
    with 1 digit_char_in_digits [of "n mod 10"] show ?thesis
      by (subst decimal.simps) simp
  qed
qed

lemma newline_notin_decimal: "CHR 0x0A \<notin> set (decimal n)"
  using set_decimal [of n] by auto

lemma newline_notin_show_int: "CHR 0x0A \<notin> set (show_int i)"
  by (simp add: show_int_def newline_notin_decimal)

lemma hex_digit_not_newline: "hex_digit n \<noteq> CHR 0x0A \<and> CHR 0x0A \<noteq> hex_digit n"
  using hex_digit_in_digits [of n] by (auto simp: hex_digits_def)

lemma newline_notin_escape: "CHR 0x0A \<notin> set (json_escape_char c)"
  by (simp add: json_escape_char_def hex_digit_not_newline)

lemma newline_notin_json_quote: "CHR 0x0A \<notin> set (json_quote s)"
  by (induction s) (simp_all add: json_quote_def newline_notin_escape)

lemma newline_notin_join:
  "CHR 0x0A \<notin> set sep \<Longrightarrow> (\<And>x. x \<in> set xs \<Longrightarrow> CHR 0x0A \<notin> set x)
     \<Longrightarrow> CHR 0x0A \<notin> set (join sep xs)"
  by (induction sep xs rule: join.induct) auto

lemma newline_notin_JSON_stringify: "CHR 0x0A \<notin> set (JSON_stringify j)"
proof (induction j)
  case (JArr xs)
  have "CHR 0x0A \<notin> set (join '','' (map JSON_stringify xs))"
  proof (rule newline_notin_join)
    show "CHR 0x0A \<notin> set '',''" by simp
  next
    fix x assume "x \<in> set (map JSON_stringify xs)"
    then obtain j where "j \<in> set xs" "x = JSON_stringify j" by auto
    with JArr show "CHR 0x0A \<notin> set x" by simp
  qed
  then show ?case by simp
next
  case (JObj kvs)
  have "CHR 0x0A \<notin> set (join '','' (map (\<lambda>kv. json_quote (fst kv) @ '':'' @ JSON_stringify (snd kv)) kvs))"
  proof (rule newline_notin_join)
    show "CHR 0x0A \<notin> set '',''" by simp
  next
    fix x assume "x \<in> set (map (\<lambda>kv. json_quote (fst kv) @ '':'' @ JSON_stringify (snd kv)) kvs)"
    then obtain kv where kv: "kv \<in> set kvs"
      and x: "x = json_quote (fst kv) @ '':'' @ JSON_stringify (snd kv)" by auto
    have "snd kv \<in> Basic_BNFs.snds kv" by (rule snds.intros)
    with JObj kv have "CHR 0x0A \<notin> set (JSON_stringify (snd kv))" by blast
    with x show "CHR 0x0A \<notin> set x" by (simp add: newline_notin_json_quote)
  qed
  then show ?case by simp
qed (simp_all add: newline_notin_show_int newline_notin_json_quote)

lemma text_lines_nonempty: "text_lines s \<noteq> []"
  by (induction s) (simp_all split: list.split)

lemma text_lines_no_newline: "CHR 0x0A \<notin> set a \<Longrightarrow> text_lines a = [a]"
  by (induction a) auto

lemma text_lines_append: "CHR 0x0A \<notin> set a \<Longrightarrow> text_lines (a @ CHR 0x0A # s) = a # text_lines s"
  by (induction a) auto

lemma fourth_line_stringToSign:
  assumes "CHR 0x0A \<notin> set method" "CHR 0x0A \<notin> set path" "CHR 0x0A \<notin> set body"
    "CHR 0x0A \<notin> set timestamp"
  shows "3 < length (text_lines (stringToSign method path body timestamp key))
     \<and> text_lines (stringToSign method path body timestamp key) ! 3 = timestamp"
  using assms text_lines_nonempty [of key]
  by (cases "text_lines key") (simp_all add: stringToSign_def text_lines_append)

lemma fourth_line_py_export:
  assumes "CHR 0x0A \<notin> set method" "CHR 0x0A \<notin> set path" "CHR 0x0A \<notin> set body"
    "CHR 0x0A \<notin> set timestamp"
  shows "3 < length (text_lines (py_export_string_to_sign method path body timestamp))
     \<and> text_lines (py_export_string_to_sign method path body timestamp) ! 3 = timestamp"
  using assms
  by (simp add: py_export_string_to_sign_def text_lines_append text_lines_no_newline)


lemma agrees_stringToSign:
  assumes "map_of (req_headers r) ''X-API-Signature''
      = Some (hex_encode (hmac_sha256 (utf8 secret) (utf8 (stringToSign method path body now key))))"
    and "map_of (req_headers r) ''X-API-Timestamp'' = Some now"
    and "CHR 0x0A \<notin> set method" "CHR 0x0A \<notin> set path" "CHR 0x0A \<notin> set body"
      "CHR 0x0A \<notin> set now"
  shows "signed_timestamp_agrees r secret (stringToSign method path body now key)"
  using assms fourth_line_stringToSign [of "method" path body now key]
  by (simp add: signed_timestamp_agrees_def)


section \<open>One timestamp per request\<close>

lemma same_timestamp_signedI:
  assumes "map_of (req_headers r) ''X-API-Signature''
      = Some (hex_encode (hmac_sha256 (utf8 secret) (utf8 (text_of now))))"
    and "map_of (req_headers r) ''X-API-Timestamp'' = Some now"
  shows "same_timestamp_signed r secret text_of"
  using assms by (simp add: same_timestamp_signed_def)

text \<open>
  C10, as the code has it.  In every request a client of the repository builds, the
  timestamp is read once, and the same value is the \<open>X-API-Timestamp\<close> header and the
  timestamp that enters the signed text after the body: the signature header is the
  HMAC of the text built from the value of the timestamp header.  This holds without
  condition for the three requests of the browser tool, the two of
  \<open>FedshiGraphQLClient\<close>, the free-standing JavaScript examples, the two of the quick
  start guide's client, the two of the Node.js SDK and the Python example.

  That timestamp is the fourth line of the signed text when neither the method, the
  path, the body nor the timestamp holds a line feed.  The clock's text
  (\<open>toISOString\<close>) has none, and neither has the output of \<open>JSON.stringify\<close>; so it is
  the fourth line in every request whose method and path are fixed, and in the
  Node.js SDK when the method and the path (the order shipment identifier) the caller
  gives have no line feed, and in the Python example when the body the caller gives
  has none.
\<close>

theorem header_timestamp_is_signed_timestamp:
  "(same_timestamp_signed (authenticate_request c now username password)
       (secretKey c)
       (\<lambda>ts. stringToSign ''POST'' ''/api/v1/third-party/admin/login''
          (JSON_stringify (JObj [(''email'', JStr username), (''password'', JStr password)]))
          ts (apiKey c))
   \<and> same_timestamp_signed (makeGraphQLRequest_request c window_app now query variables)
       (secretKey c)
       (\<lambda>ts. stringToSign ''POST'' ''/graphql/third-party''
          (JSON_stringify (JObj [(''query'', JStr query), (''variables'', variables)]))
          ts (apiKey c))
   \<and> same_timestamp_signed (processCSV_request c window_app now csvData)
       (secretKey c)
       (\<lambda>ts. stringToSign ''POST'' ''/graphql/third-party''
          (JSON_stringify (JObj [(''query'', JStr AddShipmentPackV2_query),
             (''variables'',
              JObj [(''request'',
                JObj [(''OrderShipmentIDs'', JArr (map JStr (shipmentIDs csvData))),
                      (''DeliveryCourierID'', courierID csvData),
                      (''Type'', JStr ''shipping'')])])]))
          ts (apiKey c))
   \<and> same_timestamp_signed (FedshiGraphQLClient_makeRequest_request c now query variables)
       (secretKey c)
       (\<lambda>ts. stringToSign ''POST'' ''/graphql/third-party''
          (JSON_stringify (JObj [(''query'', JStr query), (''variables'', variables)]))
          ts (apiKey c))
   \<and> same_timestamp_signed (FedshiGraphQLClient_uploadShipmentPack_request c now file)
       (secretKey c)
       (\<lambda>ts. stringToSign ''POST'' ''/graphql/third-party''
          (JSON_stringify (JObj [(''query'', JStr UploadCSV_query_client),
                                 (''variables'', JObj [(''file'', JNull)])]))
          ts (apiKey c))
   \<and> same_timestamp_signed (uploadShipmentPack_request c now file)
       (secretKey c)
       (\<lambda>ts. stringToSign ''POST'' ''/graphql/third-party''
          (JSON_stringify (JObj [(''query'', JStr UploadCSV_query_example),
                                 (''variables'', JObj [(''file'', JNull)])]))
          ts (apiKey c))
   \<and> same_timestamp_signed (exportOrderShipmentReceipt_request c now query variables)
       (secretKey c)
       (\<lambda>ts. stringToSign ''POST'' ''/graphql/third-party''
          (JSON_stringify (JObj [(''query'', JStr query), (''variables'', variables)]))
          ts (apiKey c))
   \<and> same_timestamp_signed (QuickStart_login_request sc now username password)
       (secretKey sc)
       (\<lambda>ts. stringToSign ''POST'' ''/api/v1/third-party/admin/login''
          (JSON_stringify (JObj [(''Email'', JStr username), (''Password'', JStr password)]))
          ts (apiKey sc))
   \<and> same_timestamp_signed (QuickStart_makeGraphQLRequest_request sc now query variables)
       (secretKey sc)
       (\<lambda>ts. stringToSign ''POST'' ''/graphql/third-party''
          (JSON_stringify (JObj ([(''query'', JStr query)]
             @ (if js_truthy variables then [(''variables'', variables)] else []))))
          ts (apiKey sc))
   \<and> same_timestamp_signed (ThirdPartyAPIClient_makeRequest_request c now http_method path payload)
       (secretKey c)
       (\<lambda>ts. stringToSign http_method path
          (if js_truthy payload then JSON_stringify payload else [])
          ts (apiKey c))
   \<and> same_timestamp_signed (ThirdPartyAPIClient_exportOrderShipmentReceipt_request c now orderShipmentID)
       (secretKey c)
       (\<lambda>ts. stringToSign ''GET'' (''/api/v1/third-party/export-order-shipment-receipt/'' @ orderShipmentID)
          []
          ts (apiKey c))
   \<and> same_timestamp_signed (py_export_request c now body) (secretKey c)
       (\<lambda>ts. py_export_string_to_sign ''POST'' ''/graphql/third-party'' body ts))
   \<and> (CHR 0x0A \<notin> set now \<longrightarrow>
     signed_timestamp_agrees (authenticate_request c now username password)
       (secretKey c)
       (stringToSign ''POST'' ''/api/v1/third-party/admin/login''
          (JSON_stringify (JObj [(''email'', JStr username), (''password'', JStr password)]))
          now (apiKey c))
   \<and> signed_timestamp_agrees (makeGraphQLRequest_request c window_app now query variables)
       (secretKey c)
       (stringToSign ''POST'' ''/graphql/third-party''
          (JSON_stringify (JObj [(''query'', JStr query), (''variables'', variables)]))
          now (apiKey c))
   \<and> signed_timestamp_agrees (processCSV_request c window_app now csvData)
       (secretKey c)
       (stringToSign ''POST'' ''/graphql/third-party''
          (JSON_stringify (JObj [(''query'', JStr AddShipmentPackV2_query),
             (''variables'',
              JObj [(''request'',
                JObj [(''OrderShipmentIDs'', JArr (map JStr (shipmentIDs csvData))),
                      (''DeliveryCourierID'', courierID csvData),
                      (''Type'', JStr ''shipping'')])])]))
          now (apiKey c))
   \<and> signed_timestamp_agrees (FedshiGraphQLClient_makeRequest_request c now query variables)
       (secretKey c)
       (stringToSign ''POST'' ''/graphql/third-party''
          (JSON_stringify (JObj [(''query'', JStr query), (''variables'', variables)]))
          now (apiKey c))
   \<and> signed_timestamp_agrees (FedshiGraphQLClient_uploadShipmentPack_request c now file)
       (secretKey c)
       (stringToSign ''POST'' ''/graphql/third-party''
          (JSON_stringify (JObj [(''query'', JStr UploadCSV_query_client),
                                 (''variables'', JObj [(''file'', JNull)])]))
          now (apiKey c))
   \<and> signed_timestamp_agrees (uploadShipmentPack_request c now file)
       (secretKey c)
       (stringToSign ''POST'' ''/graphql/third-party''
          (JSON_stringify (JObj [(''query'', JStr UploadCSV_query_example),
                                 (''variables'', JObj [(''file'', JNull)])]))
          now (apiKey c))
   \<and> signed_timestamp_agrees (exportOrderShipmentReceipt_request c now query variables)
       (secretKey c)
       (stringToSign ''POST'' ''/graphql/third-party''
          (JSON_stringify (JObj [(''query'', JStr query), (''variables'', variables)]))
          now (apiKey c))
   \<and> signed_timestamp_agrees (QuickStart_login_request sc now username password)
       (secretKey sc)
       (stringToSign ''POST'' ''/api/v1/third-party/admin/login''
          (JSON_stringify (JObj [(''Email'', JStr username), (''Password'', JStr password)]))
          now (apiKey sc))
   \<and> signed_timestamp_agrees (QuickStart_makeGraphQLRequest_request sc now query variables)
       (secretKey sc)
       (stringToSign ''POST'' ''/graphql/third-party''
          (JSON_stringify (JObj ([(''query'', JStr query)]
             @ (if js_truthy variables then [(''variables'', variables)] else []))))
          now (apiKey sc))
   \<and> (CHR 0x0A \<notin> set http_method \<and> CHR 0x0A \<notin> set path \<longrightarrow>
     signed_timestamp_agrees (ThirdPartyAPIClient_makeRequest_request c now http_method path payload)
       (secretKey c)
       (stringToSign http_method path
          (if js_truthy payload then JSON_stringify payload else [])
          now (apiKey c)))
   \<and> (CHR 0x0A \<notin> set orderShipmentID \<longrightarrow>
     signed_timestamp_agrees (ThirdPartyAPIClient_exportOrderShipmentReceipt_request c now orderShipmentID)
       (secretKey c)
       (stringToSign ''GET'' (''/api/v1/third-party/export-order-shipment-receipt/'' @ orderShipmentID)
          []
          now (apiKey c)))
   \<and> (CHR 0x0A \<notin> set body \<longrightarrow>
     signed_timestamp_agrees (py_export_request c now body) (secretKey c)
       (py_export_string_to_sign ''POST'' ''/graphql/third-party'' body now)))"
proof -
  note nl = newline_notin_JSON_stringify
  have a1: "same_timestamp_signed (authenticate_request c now username password)
       (secretKey c)
       (\<lambda>ts. stringToSign ''POST'' ''/api/v1/third-party/admin/login''
          (JSON_stringify (JObj [(''email'', JStr username), (''password'', JStr password)]))
          ts (apiKey c))"
    by (rule same_timestamp_signedI [where now = now])
      (simp_all add: authenticate_request_def FedshiAPIClient_generateSignature_def
        CryptoJS_HmacSHA256_def Let_def del: JSON_stringify.simps)
  have a2: "same_timestamp_signed (makeGraphQLRequest_request c window_app now query variables)
       (secretKey c)
       (\<lambda>ts. stringToSign ''POST'' ''/graphql/third-party''
          (JSON_stringify (JObj [(''query'', JStr query), (''variables'', variables)]))
          ts (apiKey c))"
    by (rule same_timestamp_signedI [where now = now])
      (simp_all add: makeGraphQLRequest_request_def FedshiAPIClient_generateSignature_def
        CryptoJS_HmacSHA256_def Let_def split: option.split del: JSON_stringify.simps)
  have a3: "same_timestamp_signed (processCSV_request c window_app now csvData)
       (secretKey c)
       (\<lambda>ts. stringToSign ''POST'' ''/graphql/third-party''
          (JSON_stringify (JObj [(''query'', JStr AddShipmentPackV2_query),
             (''variables'',
              JObj [(''request'',
                JObj [(''OrderShipmentIDs'', JArr (map JStr (shipmentIDs csvData))),
                      (''DeliveryCourierID'', courierID csvData),
                      (''Type'', JStr ''shipping'')])])]))
          ts (apiKey c))"
    by (rule same_timestamp_signedI [where now = now])
      (simp_all add: processCSV_request_def FedshiAPIClient_generateSignature_def
        CryptoJS_HmacSHA256_def Let_def split: option.split del: JSON_stringify.simps)
  have a4: "same_timestamp_signed (FedshiGraphQLClient_makeRequest_request c now query variables)
       (secretKey c)
       (\<lambda>ts. stringToSign ''POST'' ''/graphql/third-party''
          (JSON_stringify (JObj [(''query'', JStr query), (''variables'', variables)]))
          ts (apiKey c))"
    by (rule same_timestamp_signedI [where now = now])
      (simp_all add: FedshiGraphQLClient_makeRequest_request_def
        FedshiGraphQLClient_generateSignature_def
        CryptoJS_HmacSHA256_def Let_def del: JSON_stringify.simps)
  have a5: "same_timestamp_signed (FedshiGraphQLClient_uploadShipmentPack_request c now file)
       (secretKey c)
       (\<lambda>ts. stringToSign ''POST'' ''/graphql/third-party''
          (JSON_stringify (JObj [(''query'', JStr UploadCSV_query_client),
                                 (''variables'', JObj [(''file'', JNull)])]))
          ts (apiKey c))"
    by (rule same_timestamp_signedI [where now = now])
      (simp_all add: FedshiGraphQLClient_uploadShipmentPack_request_def
        FedshiGraphQLClient_generateSignature_def
        CryptoJS_HmacSHA256_def Let_def del: JSON_stringify.simps)
  have a6: "same_timestamp_signed (uploadShipmentPack_request c now file)
       (secretKey c)
       (\<lambda>ts. stringToSign ''POST'' ''/graphql/third-party''
          (JSON_stringify (JObj [(''query'', JStr UploadCSV_query_example),
                                 (''variables'', JObj [(''file'', JNull)])]))
          ts (apiKey c))"
    by (rule same_timestamp_signedI [where now = now])
      (simp_all add: uploadShipmentPack_request_def
        CryptoJS_HmacSHA256_def Let_def del: JSON_stringify.simps)
  have a7: "same_timestamp_signed (exportOrderShipmentReceipt_request c now query variables)
       (secretKey c)
       (\<lambda>ts. stringToSign ''POST'' ''/graphql/third-party''
          (JSON_stringify (JObj [(''query'', JStr query), (''variables'', variables)]))
          ts (apiKey c))"
    by (rule same_timestamp_signedI [where now = now])
      (simp_all add: exportOrderShipmentReceipt_request_def
        CryptoJS_HmacSHA256_def Let_def del: JSON_stringify.simps)
  have a8: "same_timestamp_signed (QuickStart_login_request sc now username password)
       (secretKey sc)
       (\<lambda>ts. stringToSign ''POST'' ''/api/v1/third-party/admin/login''
          (JSON_stringify (JObj [(''Email'', JStr username), (''Password'', JStr password)]))
          ts (apiKey sc))"
    by (rule same_timestamp_signedI [where now = now])
      (simp_all add: QuickStart_login_request_def QuickStart_getHeaders_def
        QuickStart_generateSignature_def createHmac_sha256_def hmac_update_def
        hmac_digest_hex_def Let_def split: option.split del: JSON_stringify.simps)
  have a9: "same_timestamp_signed (QuickStart_makeGraphQLRequest_request sc now query variables)
       (secretKey sc)
       (\<lambda>ts. stringToSign ''POST'' ''/graphql/third-party''
          (JSON_stringify (JObj ([(''query'', JStr query)]
             @ (if js_truthy variables then [(''variables'', variables)] else []))))
          ts (apiKey sc))"
    by (rule same_timestamp_signedI [where now = now])
      (simp_all add: QuickStart_makeGraphQLRequest_request_def QuickStart_getHeaders_def
        QuickStart_generateSignature_def createHmac_sha256_def hmac_update_def
        hmac_digest_hex_def Let_def split: option.split del: JSON_stringify.simps)
  have a10: "same_timestamp_signed (ThirdPartyAPIClient_makeRequest_request c now http_method path payload)
       (secretKey c)
       (\<lambda>ts. stringToSign http_method path
          (if js_truthy payload then JSON_stringify payload else [])
          ts (apiKey c))"
    by (rule same_timestamp_signedI [where now = now])
      (simp_all add: ThirdPartyAPIClient_makeRequest_request_def
        ThirdPartyAPIClient_generateSignature_def createHmac_sha256_def hmac_update_def
        hmac_digest_hex_def Let_def del: JSON_stringify.simps)
  have a11: "same_timestamp_signed (ThirdPartyAPIClient_exportOrderShipmentReceipt_request c now orderShipmentID)
       (secretKey c)
       (\<lambda>ts. stringToSign ''GET'' (''/api/v1/third-party/export-order-shipment-receipt/'' @ orderShipmentID)
          []
          ts (apiKey c))"
    by (rule same_timestamp_signedI [where now = now])
      (simp_all add: ThirdPartyAPIClient_exportOrderShipmentReceipt_request_def
        ThirdPartyAPIClient_makeRequest_request_def
        ThirdPartyAPIClient_generateSignature_def createHmac_sha256_def hmac_update_def
        hmac_digest_hex_def Let_def del: JSON_stringify.simps)
  have a12: "same_timestamp_signed (py_export_request c now body) (secretKey c)
       (\<lambda>ts. py_export_string_to_sign ''POST'' ''/graphql/third-party'' body ts)"
    by (rule same_timestamp_signedI [where now = now])
      (simp_all add: py_export_request_def py_export_signature_def py_hmac_hexdigest_def Let_def)
  have b1: "signed_timestamp_agrees (authenticate_request c now username password)
       (secretKey c)
       (stringToSign ''POST'' ''/api/v1/third-party/admin/login''
          (JSON_stringify (JObj [(''email'', JStr username), (''password'', JStr password)]))
          now (apiKey c))"
    if "CHR 0x0A \<notin> set now"
    by (rule agrees_stringToSign)
      (simp_all add: authenticate_request_def FedshiAPIClient_generateSignature_def
        CryptoJS_HmacSHA256_def Let_def nl that del: JSON_stringify.simps)
  have b2: "signed_timestamp_agrees (makeGraphQLRequest_request c window_app now query variables)
       (secretKey c)
       (stringToSign ''POST'' ''/graphql/third-party''
          (JSON_stringify (JObj [(''query'', JStr query), (''variables'', variables)]))
          now (apiKey c))"
    if "CHR 0x0A \<notin> set now"
    by (rule agrees_stringToSign)
      (simp_all add: makeGraphQLRequest_request_def FedshiAPIClient_generateSignature_def
        CryptoJS_HmacSHA256_def Let_def nl that split: option.split del: JSON_stringify.simps)
  have b3: "signed_timestamp_agrees (processCSV_request c window_app now csvData)
       (secretKey c)
       (stringToSign ''POST'' ''/graphql/third-party''
          (JSON_stringify (JObj [(''query'', JStr AddShipmentPackV2_query),
             (''variables'',
              JObj [(''request'',
                JObj [(''OrderShipmentIDs'', JArr (map JStr (shipmentIDs csvData))),
                      (''DeliveryCourierID'', courierID csvData),
                      (''Type'', JStr ''shipping'')])])]))
          now (apiKey c))"
    if "CHR 0x0A \<notin> set now"
    by (rule agrees_stringToSign)
      (simp_all add: processCSV_request_def FedshiAPIClient_generateSignature_def
        CryptoJS_HmacSHA256_def Let_def nl that split: option.split del: JSON_stringify.simps)
  have b4: "signed_timestamp_agrees (FedshiGraphQLClient_makeRequest_request c now query variables)
       (secretKey c)
       (stringToSign ''POST'' ''/graphql/third-party''
          (JSON_stringify (JObj [(''query'', JStr query), (''variables'', variables)]))
          now (apiKey c))"
    if "CHR 0x0A \<notin> set now"
    by (rule agrees_stringToSign)
      (simp_all add: FedshiGraphQLClient_makeRequest_request_def
        FedshiGraphQLClient_generateSignature_def
        CryptoJS_HmacSHA256_def Let_def nl that del: JSON_stringify.simps)
  have b5: "signed_timestamp_agrees (FedshiGraphQLClient_uploadShipmentPack_request c now file)
       (secretKey c)
       (stringToSign ''POST'' ''/graphql/third-party''
          (JSON_stringify (JObj [(''query'', JStr UploadCSV_query_client),
                                 (''variables'', JObj [(''file'', JNull)])]))
          now (apiKey c))"
    if "CHR 0x0A \<notin> set now"
    by (rule agrees_stringToSign)
      (simp_all add: FedshiGraphQLClient_uploadShipmentPack_request_def
        FedshiGraphQLClient_generateSignature_def
        CryptoJS_HmacSHA256_def Let_def nl that del: JSON_stringify.simps)
  have b6: "signed_timestamp_agrees (uploadShipmentPack_request c now file)
       (secretKey c)
       (stringToSign ''POST'' ''/graphql/third-party''
          (JSON_stringify (JObj [(''query'', JStr UploadCSV_query_example),
                                 (''variables'', JObj [(''file'', JNull)])]))
          now (apiKey c))"
    if "CHR 0x0A \<notin> set now"
    by (rule agrees_stringToSign)
      (simp_all add: uploadShipmentPack_request_def
        CryptoJS_HmacSHA256_def Let_def nl that del: JSON_stringify.simps)
  have b7: "signed_timestamp_agrees (exportOrderShipmentReceipt_request c now query variables)
       (secretKey c)
       (stringToSign ''POST'' ''/graphql/third-party''
          (JSON_stringify (JObj [(''query'', JStr query), (''variables'', variables)]))
          now (apiKey c))"
    if "CHR 0x0A \<notin> set now"
    by (rule agrees_stringToSign)
      (simp_all add: exportOrderShipmentReceipt_request_def
        CryptoJS_HmacSHA256_def Let_def nl that del: JSON_stringify.simps)
  have b8: "signed_timestamp_agrees (QuickStart_login_request sc now username password)
       (secretKey sc)
       (stringToSign ''POST'' ''/api/v1/third-party/admin/login''
          (JSON_stringify (JObj [(''Email'', JStr username), (''Password'', JStr password)]))
          now (apiKey sc))"
    if "CHR 0x0A \<notin> set now"
    by (rule agrees_stringToSign)
      (simp_all add: QuickStart_login_request_def QuickStart_getHeaders_def
        QuickStart_generateSignature_def createHmac_sha256_def hmac_update_def
        hmac_digest_hex_def Let_def nl that split: option.split del: JSON_stringify.simps)
  have b9: "signed_timestamp_agrees (QuickStart_makeGraphQLRequest_request sc now query variables)
       (secretKey sc)
       (stringToSign ''POST'' ''/graphql/third-party''
          (JSON_stringify (JObj ([(''query'', JStr query)]
             @ (if js_truthy variables then [(''variables'', variables)] else []))))
          now (apiKey sc))"
    if "CHR 0x0A \<notin> set now"
    by (rule agrees_stringToSign)
      (simp_all add: QuickStart_makeGraphQLRequest_request_def QuickStart_getHeaders_def
        QuickStart_generateSignature_def createHmac_sha256_def hmac_update_def
        hmac_digest_hex_def Let_def nl that split: option.split del: JSON_stringify.simps)
  have b10: "signed_timestamp_agrees (ThirdPartyAPIClient_makeRequest_request c now http_method path payload)
       (secretKey c)
       (stringToSign http_method path
          (if js_truthy payload then JSON_stringify payload else [])
          now (apiKey c))"
    if "CHR 0x0A \<notin> set now" "CHR 0x0A \<notin> set http_method" "CHR 0x0A \<notin> set path"
    by (rule agrees_stringToSign)
      (simp_all add: ThirdPartyAPIClient_makeRequest_request_def
        ThirdPartyAPIClient_generateSignature_def createHmac_sha256_def hmac_update_def
        hmac_digest_hex_def Let_def nl that del: JSON_stringify.simps)
  have b11: "signed_timestamp_agrees (ThirdPartyAPIClient_exportOrderShipmentReceipt_request c now orderShipmentID)
       (secretKey c)
       (stringToSign ''GET'' (''/api/v1/third-party/export-order-shipment-receipt/'' @ orderShipmentID)
          []
          now (apiKey c))"
    if "CHR 0x0A \<notin> set now" "CHR 0x0A \<notin> set orderShipmentID"
    by (rule agrees_stringToSign)
      (simp_all add: ThirdPartyAPIClient_exportOrderShipmentReceipt_request_def
        ThirdPartyAPIClient_makeRequest_request_def
        ThirdPartyAPIClient_generateSignature_def createHmac_sha256_def hmac_update_def
        hmac_digest_hex_def Let_def nl that del: JSON_stringify.simps)
  have b12: "signed_timestamp_agrees (py_export_request c now body) (secretKey c)
       (py_export_string_to_sign ''POST'' ''/graphql/third-party'' body now)"
    if "CHR 0x0A \<notin> set now" "CHR 0x0A \<notin> set body"
    using fourth_line_py_export [of "''POST''" "''/graphql/third-party''" body now] that
    by (simp add: signed_timestamp_agrees_def py_export_request_def py_export_signature_def
        py_hmac_hexdigest_def Let_def)
  have a: "same_timestamp_signed (authenticate_request c now username password)
       (secretKey c)
       (\<lambda>ts. stringToSign ''POST'' ''/api/v1/third-party/admin/login''
          (JSON_stringify (JObj [(''email'', JStr username), (''password'', JStr password)]))
          ts (apiKey c))
   \<and> same_timestamp_signed (makeGraphQLRequest_request c window_app now query variables)
       (secretKey c)
       (\<lambda>ts. stringToSign ''POST'' ''/graphql/third-party''
          (JSON_stringify (JObj [(''query'', JStr query), (''variables'', variables)]))
          ts (apiKey c))
   \<and> same_timestamp_signed (processCSV_request c window_app now csvData)
       (secretKey c)
       (\<lambda>ts. stringToSign ''POST'' ''/graphql/third-party''
          (JSON_stringify (JObj [(''query'', JStr AddShipmentPackV2_query),
             (''variables'',
              JObj [(''request'',
                JObj [(''OrderShipmentIDs'', JArr (map JStr (shipmentIDs csvData))),
                      (''DeliveryCourierID'', courierID csvData),
                      (''Type'', JStr ''shipping'')])])]))
          ts (apiKey c))
   \<and> same_timestamp_signed (FedshiGraphQLClient_makeRequest_request c now query variables)
       (secretKey c)
       (\<lambda>ts. stringToSign ''POST'' ''/graphql/third-party''
          (JSON_stringify (JObj [(''query'', JStr query), (''variables'', variables)]))
          ts (apiKey c))
   \<and> same_timestamp_signed (FedshiGraphQLClient_uploadShipmentPack_request c now file)
       (secretKey c)
       (\<lambda>ts. stringToSign ''POST'' ''/graphql/third-party''
          (JSON_stringify (JObj [(''query'', JStr UploadCSV_query_client),
                                 (''variables'', JObj [(''file'', JNull)])]))
          ts (apiKey c))
   \<and> same_timestamp_signed (uploadShipmentPack_request c now file)
       (secretKey c)
       (\<lambda>ts. stringToSign ''POST'' ''/graphql/third-party''
          (JSON_stringify (JObj [(''query'', JStr UploadCSV_query_example),
                                 (''variables'', JObj [(''file'', JNull)])]))
          ts (apiKey c))
   \<and> same_timestamp_signed (exportOrderShipmentReceipt_request c now query variables)
       (secretKey c)
       (\<lambda>ts. stringToSign ''POST'' ''/graphql/third-party''
          (JSON_stringify (JObj [(''query'', JStr query), (''variables'', variables)]))
          ts (apiKey c))
   \<and> same_timestamp_signed (QuickStart_login_request sc now username password)
       (secretKey sc)
       (\<lambda>ts. stringToSign ''POST'' ''/api/v1/third-party/admin/login''
          (JSON_stringify (JObj [(''Email'', JStr username), (''Password'', JStr password)]))
          ts (apiKey sc))
   \<and> same_timestamp_signed (QuickStart_makeGraphQLRequest_request sc now query variables)
       (secretKey sc)
       (\<lambda>ts. stringToSign ''POST'' ''/graphql/third-party''
          (JSON_stringify (JObj ([(''query'', JStr query)]
             @ (if js_truthy variables then [(''variables'', variables)] else []))))
          ts (apiKey sc))
   \<and> same_timestamp_signed (ThirdPartyAPIClient_makeRequest_request c now http_method path payload)
       (secretKey c)
       (\<lambda>ts. stringToSign http_method path
          (if js_truthy payload then JSON_stringify payload else [])
          ts (apiKey c))
   \<and> same_timestamp_signed (ThirdPartyAPIClient_exportOrderShipmentReceipt_request c now orderShipmentID)
       (secretKey c)
       (\<lambda>ts. stringToSign ''GET'' (''/api/v1/third-party/export-order-shipment-receipt/'' @ orderShipmentID)
          []
          ts (apiKey c))
   \<and> same_timestamp_signed (py_export_request c now body) (secretKey c)
       (\<lambda>ts. py_export_string_to_sign ''POST'' ''/graphql/third-party'' body ts)"
    by (intro conjI a1 a2 a3 a4 a5 a6 a7 a8 a9 a10 a11 a12)
  from b1 b2 b3 b4 b5 b6 b7 b8 b9 b10 b11 b12
  have b: "signed_timestamp_agrees (authenticate_request c now username password)
       (secretKey c)
       (stringToSign ''POST'' ''/api/v1/third-party/admin/login''
          (JSON_stringify (JObj [(''email'', JStr username), (''password'', JStr password)]))
          now (apiKey c))
   \<and> signed_timestamp_agrees (makeGraphQLRequest_request c window_app now query variables)
       (secretKey c)
       (stringToSign ''POST'' ''/graphql/third-party''
          (JSON_stringify (JObj [(''query'', JStr query), (''variables'', variables)]))
          now (apiKey c))
   \<and> signed_timestamp_agrees (processCSV_request c window_app now csvData)
       (secretKey c)
       (stringToSign ''POST'' ''/graphql/third-party''
          (JSON_stringify (JObj [(''query'', JStr AddShipmentPackV2_query),
             (''variables'',
              JObj [(''request'',
                JObj [(''OrderShipmentIDs'', JArr (map JStr (shipmentIDs csvData))),
                      (''DeliveryCourierID'', courierID csvData),
                      (''Type'', JStr ''shipping'')])])]))
          now (apiKey c))
   \<and> signed_timestamp_agrees (FedshiGraphQLClient_makeRequest_request c now query variables)
       (secretKey c)
       (stringToSign ''POST'' ''/graphql/third-party''
          (JSON_stringify (JObj [(''query'', JStr query), (''variables'', variables)]))
          now (apiKey c))
   \<and> signed_timestamp_agrees (FedshiGraphQLClient_uploadShipmentPack_request c now file)
       (secretKey c)
       (stringToSign ''POST'' ''/graphql/third-party''
          (JSON_stringify (JObj [(''query'', JStr UploadCSV_query_client),
                                 (''variables'', JObj [(''file'', JNull)])]))
          now (apiKey c))
   \<and> signed_timestamp_agrees (uploadShipmentPack_request c now file)
       (secretKey c)
       (stringToSign ''POST'' ''/graphql/third-party''
          (JSON_stringify (JObj [(''query'', JStr UploadCSV_query_example),
                                 (''variables'', JObj [(''file'', JNull)])]))
          now (apiKey c))
   \<and> signed_timestamp_agrees (exportOrderShipmentReceipt_request c now query variables)
       (secretKey c)
       (stringToSign ''POST'' ''/graphql/third-party''
          (JSON_stringify (JObj [(''query'', JStr query), (''variables'', variables)]))
          now (apiKey c))
   \<and> signed_timestamp_agrees (QuickStart_login_request sc now username password)
       (secretKey sc)
       (stringToSign ''POST'' ''/api/v1/third-party/admin/login''
          (JSON_stringify (JObj [(''Email'', JStr username), (''Password'', JStr password)]))
          now (apiKey sc))
   \<and> signed_timestamp_agrees (QuickStart_makeGraphQLRequest_request sc now query variables)
       (secretKey sc)
       (stringToSign ''POST'' ''/graphql/third-party''
          (JSON_stringify (JObj ([(''query'', JStr query)]
             @ (if js_truthy variables then [(''variables'', variables)] else []))))
          now (apiKey sc))
   \<and> (CHR 0x0A \<notin> set http_method \<and> CHR 0x0A \<notin> set path \<longrightarrow>
     signed_timestamp_agrees (ThirdPartyAPIClient_makeRequest_request c now http_method path payload)
       (secretKey c)
       (stringToSign http_method path
          (if js_truthy payload then JSON_stringify payload else [])
          now (apiKey c)))
   \<and> (CHR 0x0A \<notin> set orderShipmentID \<longrightarrow>
     signed_timestamp_agrees (ThirdPartyAPIClient_exportOrderShipmentReceipt_request c now orderShipmentID)
       (secretKey c)
       (stringToSign ''GET'' (''/api/v1/third-party/export-order-shipment-receipt/'' @ orderShipmentID)
          []
          now (apiKey c)))
   \<and> (CHR 0x0A \<notin> set body \<longrightarrow>
     signed_timestamp_agrees (py_export_request c now body) (secretKey c)
       (py_export_string_to_sign ''POST'' ''/graphql/third-party'' body now))"
    if "CHR 0x0A \<notin> set now"
    using that by blast
  from a b show ?thesis by blast
qed

theorem header_timestamp_is_signed_timestamp_witness:
  "CHR 0x0A \<notin> set ''2024-01-15T10:30:45.000Z''
   \<and> signed_timestamp_agrees
        (makeGraphQLRequest_request
          \<lparr>apiKey = ''key1'', secretKey = ''secret'', baseUrl = ''https://a.example''\<rparr>
          (Some \<lparr>fedshiClient = None, fedshiJwtToken = JStr ''earlier-token'',
                 authenticationStatus_fedshi = True\<rparr>)
          ''2024-01-15T10:30:45.000Z'' ''{ Orders { Total } }'' (JObj []))
        ''secret''
        (stringToSign ''POST'' ''/graphql/third-party''
          (JSON_stringify (JObj [(''query'', JStr ''{ Orders { Total } }''), (''variables'', JObj [])]))
          ''2024-01-15T10:30:45.000Z'' ''key1'')
   \<and> signed_timestamp_agrees
        (ThirdPartyAPIClient_makeRequest_request
          \<lparr>apiKey = ''key1'', secretKey = ''secret'', baseUrl = ''https://a.example''\<rparr>
          ''2024-01-15T10:30:45.000Z'' ''GET''
          ''/api/v1/third-party/export-order-shipment-receipt/ABC123'' JNull)
        ''secret''
        (stringToSign ''GET'' ''/api/v1/third-party/export-order-shipment-receipt/ABC123'' ''''
          ''2024-01-15T10:30:45.000Z'' ''key1'')
   \<and> signed_timestamp_agrees
        (ThirdPartyAPIClient_exportOrderShipmentReceipt_request
          \<lparr>apiKey = ''key1'', secretKey = ''secret'', baseUrl = ''https://a.example''\<rparr>
          ''2024-01-15T10:30:45.000Z'' ''ABC123'')
        ''secret''
        (stringToSign ''GET'' ''/api/v1/third-party/export-order-shipment-receipt/ABC123'' ''''
          ''2024-01-15T10:30:45.000Z'' ''key1'')
   \<and> signed_timestamp_agrees
        (py_export_request
          \<lparr>apiKey = ''key1'', secretKey = ''secret'', baseUrl = ''https://a.example''\<rparr>
          ''2024-01-15T10:30:45.000Z'' ''{}'')
        ''secret''
        (py_export_string_to_sign ''POST'' ''/graphql/third-party'' ''{}''
          ''2024-01-15T10:30:45.000Z'')
   \<and> same_timestamp_signed
        (ThirdPartyAPIClient_exportOrderShipmentReceipt_request
          \<lparr>apiKey = ''key1'', secretKey = ''secret'', baseUrl = ''https://a.example''\<rparr>
          ''2024-01-15T10:30:45.000Z'' ''ABC123'')
        ''secret''
        (\<lambda>ts. stringToSign ''GET'' ''/api/v1/third-party/export-order-shipment-receipt/ABC123''
           '''' ts ''key1'')"
proof -
  have h: "CHR 0x0A \<notin> set ''2024-01-15T10:30:45.000Z''" by simp
  from header_timestamp_is_signed_timestamp
      [where now = "''2024-01-15T10:30:45.000Z''"
        and c = "\<lparr>apiKey = ''key1'', secretKey = ''secret'', baseUrl = ''https://a.example''\<rparr>"
        and window_app = "Some \<lparr>fedshiClient = None, fedshiJwtToken = JStr ''earlier-token'',
                 authenticationStatus_fedshi = True\<rparr>"
        and query = "''{ Orders { Total } }''" and variables = "JObj []"
        and http_method = "''GET''"
        and path = "''/api/v1/third-party/export-order-shipment-receipt/ABC123''"
        and payload = JNull and body = "''{}''" and orderShipmentID = "''ABC123''"]
  show ?thesis using h by simp
qed

text \<open>
  C10 as stated fails in the Node.js SDK at an order shipment identifier with a line
  feed, \<open>exportOrderShipmentReceipt('AB\nC')\<close>: the timestamp header is the clock's
  text, the signature header is the HMAC of the text the signer builds, and the
  fourth line of that text is empty; the timestamp is its fifth line.
\<close>

theorem line_feed_in_order_id_shifts_timestamp:
  "map_of (req_headers
      (ThirdPartyAPIClient_exportOrderShipmentReceipt_request
        \<lparr>apiKey = ''key1'', secretKey = ''secret'', baseUrl = ''https://a.example''\<rparr>
        ''2024-01-15T10:30:45.000Z'' (''AB'' @ [CHR 0x0A] @ ''C''))) ''X-API-Timestamp''
     = Some ''2024-01-15T10:30:45.000Z''
   \<and> map_of (req_headers
      (ThirdPartyAPIClient_exportOrderShipmentReceipt_request
        \<lparr>apiKey = ''key1'', secretKey = ''secret'', baseUrl = ''https://a.example''\<rparr>
        ''2024-01-15T10:30:45.000Z'' (''AB'' @ [CHR 0x0A] @ ''C''))) ''X-API-Signature''
     = Some (hex_encode (hmac_sha256 (utf8 ''secret'')
         (utf8 (stringToSign ''GET''
            (''/api/v1/third-party/export-order-shipment-receipt/'' @ ''AB'' @ [CHR 0x0A] @ ''C'')
            '''' ''2024-01-15T10:30:45.000Z'' ''key1''))))
   \<and> text_lines (stringToSign ''GET''
          (''/api/v1/third-party/export-order-shipment-receipt/'' @ ''AB'' @ [CHR 0x0A] @ ''C'')
          '''' ''2024-01-15T10:30:45.000Z'' ''key1'')
     = [''GET'', ''/api/v1/third-party/export-order-shipment-receipt/AB'', ''C'', '''',
        ''2024-01-15T10:30:45.000Z'', ''key1'']
   \<and> text_lines (stringToSign ''GET''
          (''/api/v1/third-party/export-order-shipment-receipt/'' @ ''AB'' @ [CHR 0x0A] @ ''C'')
          '''' ''2024-01-15T10:30:45.000Z'' ''key1'') ! 3
     = ''''
   \<and> \<not> signed_timestamp_agrees
        (ThirdPartyAPIClient_exportOrderShipmentReceipt_request
          \<lparr>apiKey = ''key1'', secretKey = ''secret'', baseUrl = ''https://a.example''\<rparr>
          ''2024-01-15T10:30:45.000Z'' (''AB'' @ [CHR 0x0A] @ ''C''))
        ''secret''
        (stringToSign ''GET''
          (''/api/v1/third-party/export-order-shipment-receipt/'' @ ''AB'' @ [CHR 0x0A] @ ''C'')
          '''' ''2024-01-15T10:30:45.000Z'' ''key1'')"
proof -
  let ?r = "ThirdPartyAPIClient_exportOrderShipmentReceipt_request
        \<lparr>apiKey = ''key1'', secretKey = ''secret'', baseUrl = ''https://a.example''\<rparr>
        ''2024-01-15T10:30:45.000Z'' (''AB'' @ [CHR 0x0A] @ ''C'')"
  let ?t = "stringToSign ''GET''
          (''/api/v1/third-party/export-order-shipment-receipt/'' @ ''AB'' @ [CHR 0x0A] @ ''C'')
          '''' ''2024-01-15T10:30:45.000Z'' ''key1''"
  have l: "text_lines ?t
     = [''GET'', ''/api/v1/third-party/export-order-shipment-receipt/AB'', ''C'', '''',
        ''2024-01-15T10:30:45.000Z'', ''key1'']"
    by (simp add: stringToSign_def)
  have ts: "map_of (req_headers ?r) ''X-API-Timestamp'' = Some ''2024-01-15T10:30:45.000Z''"
    by (simp add: ThirdPartyAPIClient_exportOrderShipmentReceipt_request_def
        ThirdPartyAPIClient_makeRequest_request_def Let_def)
  have sg: "map_of (req_headers ?r) ''X-API-Signature''
     = Some (hex_encode (hmac_sha256 (utf8 ''secret'') (utf8 ?t)))"
    by (simp add: ThirdPartyAPIClient_exportOrderShipmentReceipt_request_def
        ThirdPartyAPIClient_makeRequest_request_def ThirdPartyAPIClient_generateSignature_def
        createHmac_sha256_def hmac_update_def hmac_digest_hex_def Let_def)
  have f: "text_lines ?t ! 3 = ''''" by (simp only: l) simp
  have n: "\<not> signed_timestamp_agrees ?r ''secret'' ?t"
    unfolding signed_timestamp_agrees_def by (simp only: ts f) simp
  show ?thesis by (intro conjI ts sg l f n)
qed

section \<open>GraphQL errors\<close>


lemma response_ok_200: "status r = 200 \<Longrightarrow> response_ok r"
  by (simp add: response_ok_def)


text \<open>
  C4, as the code has it.  Take an answer with status 200 whose JSON body has a
  non-empty \<open>errors\<close> array.  \<open>makeGraphQLRequest\<close> of the browser tool and
  \<open>FedshiGraphQLClient.makeRequest\<close> throw an error whose message is "GraphQL Error: "
  followed by the JSON text of the whole array.  \<open>processCSVAndCreateShipmentPack\<close>
  throws as well: the message is the first error's message when that is a non-empty
  string, and "Unknown GraphQL error" when the first error is an object without a
  message or with an empty one.  \<open>makeGraphQLRequest\<close> of the quick start guide's client
  does not look at \<open>errors\<close>: it returns the body.
\<close>

theorem graphql_errors_are_failures:
  "response_json response = Some (JObj kvs) \<Longrightarrow>
   map_of kvs ''errors'' = Some (JArr (e # es)) \<Longrightarrow>
   status response = 200 \<Longrightarrow>
     makeGraphQLRequest c window_app now (\<lambda>r. Inr response) query variables
       = Inl (Error (''GraphQL Error: '' @ JSON_stringify (JArr (e # es))))
   \<and> FedshiGraphQLClient_makeRequest c now (\<lambda>r. Inr response) query variables
       = Inl (Error (''GraphQL Error: '' @ JSON_stringify (JArr (e # es))))
   \<and> (shipmentIDs csvData \<noteq> [] \<longrightarrow>
        isl (processCSVAndCreateShipmentPack c window_app now (\<lambda>r. Inr response) (Inr csvData)))
   \<and> (shipmentIDs csvData \<noteq> [] \<and> e = JObj ekvs \<and> map_of ekvs ''message'' = Some (JStr m)
        \<and> m \<noteq> [] \<longrightarrow>
        processCSVAndCreateShipmentPack c window_app now (\<lambda>r. Inr response) (Inr csvData)
          = Inl (Error m))
   \<and> (shipmentIDs csvData \<noteq> [] \<and> e = JObj ekvs
        \<and> (map_of ekvs ''message'' = None \<or> map_of ekvs ''message'' = Some (JStr [])) \<longrightarrow>
        processCSVAndCreateShipmentPack c window_app now (\<lambda>r. Inr response) (Inr csvData)
          = Inl (Error ''Unknown GraphQL error''))
   \<and> QuickStart_makeGraphQLRequest sc now (\<lambda>r. Inr response) query variables = Inr (JObj kvs)"
proof -
  assume rj: "response_json response = Some (JObj kvs)"
    and errs: "map_of kvs ''errors'' = Some (JArr (e # es))"
    and st: "status response = 200"
  have ok: "response_ok response" using st by (rule response_ok_200)
  have j: "json_of_response response = Inr (JObj kvs)" using rj by (simp add: json_of_response_def)
  have 1: "makeGraphQLRequest c window_app now (\<lambda>r. Inr response) query variables
       = Inl (Error (''GraphQL Error: '' @ JSON_stringify (JArr (e # es))))"
    using ok j errs by (simp add: makeGraphQLRequest_def del: JSON_stringify.simps)
  have 2: "FedshiGraphQLClient_makeRequest c now (\<lambda>r. Inr response) query variables
       = Inl (Error (''GraphQL Error: '' @ JSON_stringify (JArr (e # es))))"
    using j errs by (simp add: FedshiGraphQLClient_makeRequest_def del: JSON_stringify.simps)
  have 3: "isl (processCSVAndCreateShipmentPack c window_app now (\<lambda>r. Inr response) (Inr csvData))"
    if "shipmentIDs csvData \<noteq> []"
    using that j errs
    by (cases e) (simp_all add: processCSVAndCreateShipmentPack_def split: option.split)
  have 4: "processCSVAndCreateShipmentPack c window_app now (\<lambda>r. Inr response) (Inr csvData)
          = Inl (Error m)"
    if "shipmentIDs csvData \<noteq> []" "e = JObj ekvs" "map_of ekvs ''message'' = Some (JStr m)" "m \<noteq> []"
    using that j errs by (simp add: processCSVAndCreateShipmentPack_def)
  have 5: "processCSVAndCreateShipmentPack c window_app now (\<lambda>r. Inr response) (Inr csvData)
          = Inl (Error ''Unknown GraphQL error'')"
    if "shipmentIDs csvData \<noteq> []" "e = JObj ekvs"
       "map_of ekvs ''message'' = None \<or> map_of ekvs ''message'' = Some (JStr [])"
    using that j errs by (auto simp add: processCSVAndCreateShipmentPack_def)
  have 6: "QuickStart_makeGraphQLRequest sc now (\<lambda>r. Inr response) query variables = Inr (JObj kvs)"
    using ok j by (simp add: QuickStart_makeGraphQLRequest_def)
  from 1 2 3 4 5 6 show ?thesis by blast
qed

theorem graphql_errors_are_failures_witness:
  "response_json graphql_error_response
     = Some (JObj [(''errors'', JArr [JObj [(''message'', JStr graphql_error_message)]])])
   \<and> map_of [(''errors'', JArr [JObj [(''message'', JStr graphql_error_message)]])] ''errors''
     = Some (JArr [JObj [(''message'', JStr graphql_error_message)]])
   \<and> status graphql_error_response = 200
   \<and> makeGraphQLRequest
        \<lparr>apiKey = ''key1'', secretKey = ''secret'', baseUrl = ''https://a.example''\<rparr> None
        ''2024-01-15T10:30:45.000Z'' (\<lambda>r. Inr graphql_error_response) ''{ foo }'' (JObj [])
       = Inl (Error (''GraphQL Error: ''
              @ JSON_stringify (JArr [JObj [(''message'', JStr graphql_error_message)]])))
   \<and> processCSVAndCreateShipmentPack
        \<lparr>apiKey = ''key1'', secretKey = ''secret'', baseUrl = ''https://a.example''\<rparr> None
        ''2024-01-15T10:30:45.000Z'' (\<lambda>r. Inr graphql_error_response)
        (Inr \<lparr>shipmentIDs = [''ABC123''], courierID = JNum 7\<rparr>)
       = Inl (Error graphql_error_message)
   \<and> QuickStart_makeGraphQLRequest
        \<lparr>apiKey = ''key1'', secretKey = ''secret'', baseUrl = ''https://a.example'',
         jwtToken = Some JNull\<rparr>
        ''2024-01-15T10:30:45.000Z'' (\<lambda>r. Inr graphql_error_response) ''{ foo }'' (JObj [])
       = Inr (JObj [(''errors'', JArr [JObj [(''message'', JStr graphql_error_message)]])])"
proof -
  have h1: "response_json graphql_error_response
     = Some (JObj [(''errors'', JArr [JObj [(''message'', JStr graphql_error_message)]])])"
    by (simp add: graphql_error_response_def graphql_error_body_def)
  have h2: "map_of [(''errors'', JArr [JObj [(''message'', JStr graphql_error_message)]])] ''errors''
     = Some (JArr [JObj [(''message'', JStr graphql_error_message)]])"
    by simp
  have h3: "status graphql_error_response = 200"
    by (simp add: graphql_error_response_def)
  have m: "graphql_error_message \<noteq> []" by (simp add: graphql_error_message_def)
  from graphql_errors_are_failures [OF h1 h2 h3,
      where csvData = "\<lparr>shipmentIDs = [''ABC123''], courierID = JNum 7\<rparr>"
        and ekvs = "[(''message'', JStr graphql_error_message)]"
        and m = graphql_error_message]
  show ?thesis using h1 h2 h3 m by simp
qed


text \<open>
  C4 as stated fails at an answer with status 200 and the one error
  \<open>Cannot query field "foo"\<close>: the quick start guide's client returns it as a
  success, and the error the browser tool's \<open>makeGraphQLRequest\<close> throws holds the JSON
  text of the array, in which the message does not occur as it is (its quotes are
  escaped).
\<close>

theorem graphql_errors_not_always_a_failure:
  "status graphql_error_response = 200
   \<and> response_json graphql_error_response = Some graphql_error_body
   \<and> js_get (Some graphql_error_body) ''errors''
       = Inr (Some (JArr [JObj [(''message'', JStr graphql_error_message)]]))
   \<and> QuickStart_makeGraphQLRequest
        \<lparr>apiKey = ''key1'', secretKey = ''secret'', baseUrl = ''https://a.example'',
         jwtToken = Some JNull\<rparr>
        ''2024-01-15T10:30:45.000Z'' (\<lambda>r. Inr graphql_error_response) ''{ foo }'' (JObj [])
       = Inr graphql_error_body
   \<and> makeGraphQLRequest
        \<lparr>apiKey = ''key1'', secretKey = ''secret'', baseUrl = ''https://a.example''\<rparr> None
        ''2024-01-15T10:30:45.000Z'' (\<lambda>r. Inr graphql_error_response) ''{ foo }'' (JObj [])
       = Inl (Error (''GraphQL Error: [{'' @ [CHR 0x22] @ ''message'' @ [CHR 0x22] @ '':''
              @ [CHR 0x22] @ ''Cannot query field '' @ [CHR 0x5C, CHR 0x22] @ ''foo''
              @ [CHR 0x5C, CHR 0x22] @ [CHR 0x22] @ ''}]''))
   \<and> \<not> sublist graphql_error_message
        (''GraphQL Error: [{'' @ [CHR 0x22] @ ''message'' @ [CHR 0x22] @ '':''
              @ [CHR 0x22] @ ''Cannot query field '' @ [CHR 0x5C, CHR 0x22] @ ''foo''
              @ [CHR 0x5C, CHR 0x22] @ [CHR 0x22] @ ''}]'')"
proof -
  have a: "status graphql_error_response = 200"
    and b: "response_json graphql_error_response = Some graphql_error_body"
    by (simp_all add: graphql_error_response_def)
  have c: "js_get (Some graphql_error_body) ''errors''
       = Inr (Some (JArr [JObj [(''message'', JStr graphql_error_message)]]))"
    by (simp add: graphql_error_body_def)
  have ok: "response_ok graphql_error_response" using a by (rule response_ok_200)
  have j: "json_of_response graphql_error_response = Inr graphql_error_body"
    using b by (simp add: json_of_response_def)
  have d: "QuickStart_makeGraphQLRequest
        \<lparr>apiKey = ''key1'', secretKey = ''secret'', baseUrl = ''https://a.example'',
         jwtToken = Some JNull\<rparr>
        ''2024-01-15T10:30:45.000Z'' (\<lambda>r. Inr graphql_error_response) ''{ foo }'' (JObj [])
       = Inr graphql_error_body"
    using ok j by (simp add: QuickStart_makeGraphQLRequest_def)
  have s: "JSON_stringify (JArr [JObj [(''message'', JStr graphql_error_message)]])
      = ''[{'' @ [CHR 0x22] @ ''message'' @ [CHR 0x22] @ '':''
              @ [CHR 0x22] @ ''Cannot query field '' @ [CHR 0x5C, CHR 0x22] @ ''foo''
              @ [CHR 0x5C, CHR 0x22] @ [CHR 0x22] @ ''}]''"
    by (simp add: graphql_error_message_def json_quote_def json_escape_char_def)
  have e: "makeGraphQLRequest
        \<lparr>apiKey = ''key1'', secretKey = ''secret'', baseUrl = ''https://a.example''\<rparr> None
        ''2024-01-15T10:30:45.000Z'' (\<lambda>r. Inr graphql_error_response) ''{ foo }'' (JObj [])
       = Inl (Error (''GraphQL Error: [{'' @ [CHR 0x22] @ ''message'' @ [CHR 0x22] @ '':''
              @ [CHR 0x22] @ ''Cannot query field '' @ [CHR 0x5C, CHR 0x22] @ ''foo''
              @ [CHR 0x5C, CHR 0x22] @ [CHR 0x22] @ ''}]''))"
    using ok j c s by (simp add: makeGraphQLRequest_def del: JSON_stringify.simps)
  have f: "\<not> sublist graphql_error_message
        (''GraphQL Error: [{'' @ [CHR 0x22] @ ''message'' @ [CHR 0x22] @ '':''
              @ [CHR 0x22] @ ''Cannot query field '' @ [CHR 0x5C, CHR 0x22] @ ''foo''
              @ [CHR 0x5C, CHR 0x22] @ [CHR 0x22] @ ''}]'')"
    unfolding graphql_error_message_def by code_simp
  from a b c d e f show ?thesis by blast
qed

section \<open>The signers compared\<close>


lemma py_export_string_differs:
  "py_export_string_to_sign method path body timestamp
     \<noteq> stringToSign method path body timestamp api_key"
  by (simp add: py_export_string_to_sign_def stringToSign_def)


text \<open>
  C2.  The signers of the browser tool, of the Node.js SDK, of \<open>FedshiGraphQLClient\<close>
  and of the quick start guide (JavaScript and Python) compute the same signature
  from the same inputs.  The Python example \<open>export_order_shipment_receipt\<close> of the
  GraphQL guide does not: it signs the text without the last line, the API key, so
  its message differs from the others' for every input, and its signature is theirs
  only where HMAC-SHA256 gives the two messages the same digest.
\<close>

theorem python_example_omits_api_key:
  "ThirdPartyAPIClient_generateSignature c method path body timestamp
     = FedshiAPIClient_generateSignature c method path body timestamp
   \<and> FedshiGraphQLClient_generateSignature c method path body timestamp
     = FedshiAPIClient_generateSignature c method path body timestamp
   \<and> QuickStart_generateSignature
        \<lparr>apiKey = apiKey c, secretKey = secretKey c, baseUrl = baseUrl c, jwtToken = token\<rparr>
        timestamp method path body
     = (FedshiAPIClient_generateSignature c method path body timestamp, timestamp)
   \<and> py_generate_signature
        \<lparr>apiKey = apiKey c, secretKey = secretKey c, baseUrl = baseUrl c, jwtToken = token\<rparr>
        timestamp method path body
     = (FedshiAPIClient_generateSignature c method path body timestamp, timestamp)
   \<and> py_export_signature (secretKey c) method path body timestamp
     = hex_encode (hmac_sha256 (utf8 (secretKey c))
         (utf8 (method @ [CHR 0x0A] @ path @ [CHR 0x0A] @ body @ [CHR 0x0A] @ timestamp)))
   \<and> utf8 (method @ [CHR 0x0A] @ path @ [CHR 0x0A] @ body @ [CHR 0x0A] @ timestamp)
     \<noteq> utf8 (stringToSign method path body timestamp (apiKey c))
   \<and> (py_export_signature (secretKey c) method path body timestamp
        = FedshiAPIClient_generateSignature c method path body timestamp
      \<longleftrightarrow> hmac_sha256 (utf8 (secretKey c))
            (utf8 (method @ [CHR 0x0A] @ path @ [CHR 0x0A] @ body @ [CHR 0x0A] @ timestamp))
          = hmac_sha256 (utf8 (secretKey c))
            (utf8 (stringToSign method path body timestamp (apiKey c))))"
  using py_export_string_differs [of "method" path body timestamp "apiKey c"]
  by (simp add: ThirdPartyAPIClient_generateSignature_def FedshiAPIClient_generateSignature_def
      FedshiGraphQLClient_generateSignature_def QuickStart_generateSignature_def
      py_generate_signature_def py_export_signature_def py_hmac_hexdigest_def
      py_export_string_to_sign_def CryptoJS_HmacSHA256_def createHmac_sha256_def
      hmac_update_def hmac_digest_hex_def Let_def utf8_inject hex_encode_inject
      stringToSign_def)

end
